theory Spec2Isabelle
  imports Complex_Main
begin

section \<open>Host-platform vocabulary shared by the four widgets\<close>

text \<open>
  The widgets are custom elements. Each one is modelled as a record holding its attribute
  set, the inner native control it renders, and the list of custom events it has
  dispatched. Every callback and handler of the source is a function from such a record to
  the updated record. Strings are lists of code units; \<open>getAttribute\<close> returning
  \<open>null\<close> is \<open>None\<close>.
\<close>

type_synonym attrs = "string \<rightharpoonup> string"

text \<open>JavaScript truthiness of a \<open>string | null\<close>: \<open>null\<close> and the empty string are falsy.\<close>

definition truthy :: "string option \<Rightarrow> bool" where
  "truthy v = (case v of None \<Rightarrow> False | Some s \<Rightarrow> s \<noteq> [])"

text \<open>\<open>v || d\<close> on a \<open>string | null\<close>.\<close>

definition or_default :: "string option \<Rightarrow> string \<Rightarrow> string" where
  "or_default v d = (case v of None \<Rightarrow> d | Some s \<Rightarrow> if s = [] then d else s)"

definition is_digit :: "char \<Rightarrow> bool" where
  "is_digit c = (c \<in> set ''0123456789'')"

text \<open>The regular expression \<open>/^\d+$/\<close>: one or more decimal digits and nothing else.\<close>

definition all_digits :: "string \<Rightarrow> bool" where
  "all_digits s = (s \<noteq> [] \<and> list_all is_digit s)"

section \<open>Layout container (imara-container.js)\<close>

text \<open>
  Every write the container makes to the DOM is appended to \<open>c_writes\<close>, so that work
  which leaves the styles as they were is still visible. \<open>c_style\<close> holds the inline
  style of the inner \<open>.container\<close> element: for each property, the value last written.
\<close>

datatype dom_write =
    SetProperty string string
  | RemoveProperty string
  | SetStyle string string
  | RemoveAttribute string

record imara_container =
  c_attrs :: attrs
  c_has_container :: bool
  c_style :: "string \<rightharpoonup> string"
  c_writes :: "dom_write list"

definition setProperty :: "string \<Rightarrow> string \<Rightarrow> imara_container \<Rightarrow> imara_container" where
  "setProperty name v st =
     st\<lparr>c_style := (c_style st)(name \<mapsto> v), c_writes := c_writes st @ [SetProperty name v]\<rparr>"

definition removeProperty :: "string \<Rightarrow> imara_container \<Rightarrow> imara_container" where
  "removeProperty name st =
     st\<lparr>c_style := (c_style st)(name := None), c_writes := c_writes st @ [RemoveProperty name]\<rparr>"

definition setStyle :: "string \<Rightarrow> string \<Rightarrow> imara_container \<Rightarrow> imara_container" where
  "setStyle name v st =
     st\<lparr>c_style := (c_style st)(name \<mapsto> v), c_writes := c_writes st @ [SetStyle name v]\<rparr>"

definition normalizeUnit :: "string option \<Rightarrow> string" where
  "normalizeUnit v =
     (case v of
        None \<Rightarrow> ''auto''
      | Some s \<Rightarrow> if s = [] then ''auto'' else if all_digits s then s @ ''px'' else s)"

definition setVar :: "string \<Rightarrow> string \<Rightarrow> imara_container \<Rightarrow> imara_container" where
  "setVar name v st = (if v = ''auto'' then removeProperty name st else setProperty name v st)"

definition mapAlign :: "string option \<Rightarrow> string" where
  "mapAlign v =
     (if v = Some ''start'' then ''flex-start''
      else if v = Some ''end'' then ''flex-end''
      else if v = Some ''center'' then ''center''
      else if v = Some ''stretch'' then ''stretch''
      else if v = Some ''baseline'' then ''baseline''
      else ''stretch'')"

definition mapJustify :: "string option \<Rightarrow> string" where
  "mapJustify v =
     (if v = Some ''start'' then ''flex-start''
      else if v = Some ''end'' then ''flex-end''
      else if v = Some ''center'' then ''center''
      else if v = Some ''space-between'' then ''space-between''
      else if v = Some ''space-around'' then ''space-around''
      else if v = Some ''space-evenly'' then ''space-evenly''
      else ''flex-start'')"

definition applyFlex :: "imara_container \<Rightarrow> imara_container" where
  "applyFlex st =
     (if c_attrs st ''layout'' \<noteq> Some ''flex'' then st
      else setStyle ''justify-content'' (mapJustify (c_attrs st ''justify''))
             (setStyle ''align-items'' (mapAlign (c_attrs st ''align''))
               (setStyle ''flex-direction'' (or_default (c_attrs st ''direction'') ''row'') st)))"

text \<open>
  The grid template written by \<open>applyGrid\<close> when the layout is \<open>grid\<close>, as a function of
  the \<open>columns\<close> and \<open>min-column-width\<close> attributes.
\<close>

definition grid_template :: "string option \<Rightarrow> string option \<Rightarrow> string" where
  "grid_template columns mcw =
     (let minWidth = normalizeUnit (Some (or_default mcw ''250px''));
          auto_fit = ''repeat(auto-fit, minmax('' @ minWidth @ '', 1fr))''
      in case columns of
           None \<Rightarrow> auto_fit
         | Some c \<Rightarrow> if c \<noteq> [] \<and> all_digits c then ''repeat('' @ c @ '', 1fr)'' else auto_fit)"

definition applyGrid :: "imara_container \<Rightarrow> imara_container" where
  "applyGrid st =
     (if c_attrs st ''layout'' \<noteq> Some ''grid''
      then removeProperty ''--grid-template-columns'' st
      else setProperty ''--grid-template-columns''
             (grid_template (c_attrs st ''columns'') (c_attrs st ''min-column-width'')) st)"

definition PADDING_SCALE :: "(string \<times> string) list" where
  "PADDING_SCALE =
     [(''xs'', ''0.25rem''), (''sm'', ''0.5rem''), (''md'', ''1rem''),
      (''lg'', ''1.5rem''), (''xl'', ''2rem'')]"

text \<open>
  The lookup \<open>PADDING_SCALE[value]\<close> is modelled on the table's own keys; the keys an
  object literal inherits from its prototype are not part of the model.
\<close>

definition resolvePadding :: "string option \<Rightarrow> string" where
  "resolvePadding v =
     (case v of
        None \<Rightarrow> ''0''
      | Some s \<Rightarrow>
          if s = [] then ''0''
          else (case map_of PADDING_SCALE s of
                  Some p \<Rightarrow> p
                | None \<Rightarrow> normalizeUnit v))"

definition applySpacing :: "imara_container \<Rightarrow> imara_container" where
  "applySpacing st =
     setVar ''--margin'' (normalizeUnit (c_attrs st ''margin''))
       (setVar ''--padding'' (resolvePadding (c_attrs st ''padding''))
         (setVar ''--gap'' (normalizeUnit (c_attrs st ''gap'')) st))"

definition applySizing :: "imara_container \<Rightarrow> imara_container" where
  "applySizing st =
     setVar ''--max-width'' (normalizeUnit (c_attrs st ''max-width''))
       (setVar ''--height'' (normalizeUnit (c_attrs st ''height''))
         (setVar ''--width'' (normalizeUnit (c_attrs st ''width'')) st))"

text \<open>The four steps of \<open>sync\<close> that follow \<open>applyLayout\<close>, in the source's order.\<close>

definition sync_tail :: "imara_container \<Rightarrow> imara_container" where
  "sync_tail st = applySizing (applySpacing (applyGrid (applyFlex st)))"

definition valid_layout :: "string option \<Rightarrow> bool" where
  "valid_layout l = (truthy l \<and> (l = Some ''block'' \<or> l = Some ''flex'' \<or> l = Some ''grid''))"

text \<open>
  \<open>applyLayout\<close> removes a \<open>layout\<close> attribute that is empty or not one of the three modes.
  Removing an attribute that is present invokes \<open>attributeChangedCallback\<close>, hence a nested
  \<open>sync\<close>, before \<open>removeAttribute\<close> returns. In that nested run the attribute is absent,
  \<open>applyLayout\<close> asks again for its removal, which does nothing on an absent attribute, and
  the four remaining steps run: the nested run is \<open>sync_tail\<close>. The inner element exists,
  since the outer \<open>sync\<close> has checked it.
\<close>

definition applyLayout :: "imara_container \<Rightarrow> imara_container" where
  "applyLayout st =
     (if valid_layout (c_attrs st ''layout'') then st
      else case c_attrs st ''layout'' of
             None \<Rightarrow> st
           | Some _ \<Rightarrow>
               sync_tail (st\<lparr>c_attrs := (c_attrs st)(''layout'' := None),
                              c_writes := c_writes st @ [RemoveAttribute ''layout'']\<rparr>))"

definition sync :: "imara_container \<Rightarrow> imara_container" where
  "sync st = (if \<not> c_has_container st then st else sync_tail (applyLayout st))"

text \<open>The container's callback takes no arguments and always synchronises.\<close>

definition container_attributeChangedCallback ::
  "string \<Rightarrow> string option \<Rightarrow> string option \<Rightarrow> imara_container \<Rightarrow> imara_container" where
  "container_attributeChangedCallback name oldValue newValue st = sync st"

text \<open>
  Grid containers used below: three columns; zero columns; no \<open>columns\<close> and a minimum
  column width of \<open>200px\<close>, and of \<open>200\<close>.
\<close>

definition grid_three :: imara_container where
  "grid_three =
     \<lparr>c_attrs = [''layout'' \<mapsto> ''grid'', ''columns'' \<mapsto> ''3''],
      c_has_container = True, c_style = Map.empty, c_writes = []\<rparr>"

definition grid_zero :: imara_container where
  "grid_zero =
     \<lparr>c_attrs = [''layout'' \<mapsto> ''grid'', ''columns'' \<mapsto> ''0''],
      c_has_container = True, c_style = Map.empty, c_writes = []\<rparr>"

definition grid_min_width :: "string \<Rightarrow> imara_container" where
  "grid_min_width w =
     \<lparr>c_attrs = [''layout'' \<mapsto> ''grid'', ''min-column-width'' \<mapsto> w],
      c_has_container = True, c_style = Map.empty, c_writes = []\<rparr>"

section \<open>Events\<close>

text \<open>
  A custom event as the widgets construct it: its name, the two propagation flags and the
  \<open>detail\<close> payload as a list of named values. No widget passes \<open>cancelable\<close>.
\<close>

datatype detail_val = DStr string | DNum nat

record custom_event =
  ev_name :: string
  ev_bubbles :: bool
  ev_composed :: bool
  ev_detail :: "(string \<times> detail_val) list"

text \<open>
  The native event a handler receives: whether \<open>preventDefault\<close> and
  \<open>stopPropagation\<close> have been called on it, the text of its target control and, for an
  input event, the kind of edit.
\<close>

record native_event =
  defaultPrevented :: bool
  propagationStopped :: bool
  target_value :: string
  inputType :: string

definition fresh_event :: "string \<Rightarrow> string \<Rightarrow> native_event" where
  "fresh_event v k =
     \<lparr>defaultPrevented = False, propagationStopped = False, target_value = v, inputType = k\<rparr>"

section \<open>Button (imara-button.js)\<close>

text \<open>
  The inner native \<open>button\<close>: its content attributes, whether \<open>handleClick\<close> is
  registered on it as a click listener, and the native methods the widget has called on it.
\<close>

record native_button =
  nb_attrs :: attrs
  nb_click_listener :: bool
  nb_calls :: "string list"

record imara_button =
  b_attrs :: attrs
  b_button :: "native_button option"
  b_events :: "custom_event list"

definition button_observedAttributes :: "string list" where
  "button_observedAttributes = [''variant'', ''disabled'', ''loading'', ''type'']"

definition button_constructor :: imara_button where
  "button_constructor = \<lparr>b_attrs = Map.empty, b_button = None, b_events = []\<rparr>"

definition handleClick :: "native_event \<Rightarrow> imara_button \<Rightarrow> native_event \<times> imara_button" where
  "handleClick event st =
     (if b_attrs st ''disabled'' \<noteq> None \<or> b_attrs st ''loading'' \<noteq> None
      then (event\<lparr>defaultPrevented := True, propagationStopped := True\<rparr>, st)
      else (event,
            st\<lparr>b_events := b_events st @
               [\<lparr>ev_name = ''button-click'', ev_bubbles = True, ev_composed = True,
                 ev_detail =
                   [(''variant'', DStr (or_default (b_attrs st ''variant'') ''primary'')),
                    (''type'', DStr (or_default (b_attrs st ''type'') ''button''))]\<rparr>]\<rparr>))"

definition updateButton :: "imara_button \<Rightarrow> imara_button" where
  "updateButton st =
     (case b_button st of
        None \<Rightarrow> st
      | Some b \<Rightarrow>
          let type = or_default (b_attrs st ''type'') ''button'';
              isDisabled = (b_attrs st ''disabled'' \<noteq> None);
              isLoading = (b_attrs st ''loading'' \<noteq> None);
              variant = or_default (b_attrs st ''variant'') ''primary'';
              a1 = (nb_attrs b)(''type'' \<mapsto> type);
              a2 = (if isDisabled \<or> isLoading
                    then a1(''disabled'' \<mapsto> '''', ''aria-disabled'' \<mapsto> ''true'')
                    else (a1(''disabled'' := None))(''aria-disabled'' \<mapsto> ''false''));
              a3 = a2(''aria-busy'' \<mapsto> (if isLoading then ''true'' else ''false''));
              a4 = a3(''aria-label'' \<mapsto>
                      variant @ '' button'' @ (if isLoading then '', loading'' else ''''))
          in st\<lparr>b_button := Some (b\<lparr>nb_attrs := a4\<rparr>)\<rparr>)"

definition button_attributeChangedCallback ::
  "string \<Rightarrow> string option \<Rightarrow> string option \<Rightarrow> imara_button \<Rightarrow> imara_button" where
  "button_attributeChangedCallback name oldValue newValue st =
     (if oldValue \<noteq> newValue then updateButton st else st)"

text \<open>
  \<open>setAttribute\<close> and \<open>removeAttribute\<close> on the host element. The platform invokes the
  callback of an observed attribute on every \<open>setAttribute\<close>, also when the new value is
  the old one; removing an absent attribute invokes nothing.
\<close>

definition button_setAttribute :: "string \<Rightarrow> string \<Rightarrow> imara_button \<Rightarrow> imara_button" where
  "button_setAttribute name v st =
     (let old = b_attrs st name; st' = st\<lparr>b_attrs := (b_attrs st)(name \<mapsto> v)\<rparr>
      in if name \<in> set button_observedAttributes
         then button_attributeChangedCallback name old (Some v) st' else st')"

definition button_removeAttribute :: "string \<Rightarrow> imara_button \<Rightarrow> imara_button" where
  "button_removeAttribute name st =
     (case b_attrs st name of
        None \<Rightarrow> st
      | Some old \<Rightarrow>
          let st' = st\<lparr>b_attrs := (b_attrs st)(name := None)\<rparr>
          in if name \<in> set button_observedAttributes
             then button_attributeChangedCallback name (Some old) None st' else st')"

text \<open>
  \<open>render\<close> is an \<open>async\<close> method whose first statement after the shadow-root check is an
  \<open>await\<close>: the call made by \<open>connectedCallback\<close> returns at that point, and the rest of
  the body runs later, as \<open>button_render_resume\<close>. It replaces the shadow tree by a new
  inner button, which carries no listener, and initialises it with \<open>updateButton\<close>.
\<close>

definition template_button :: native_button where
  "template_button =
     \<lparr>nb_attrs = [''class'' \<mapsto> ''app-button'', ''part'' \<mapsto> ''button''],
      nb_click_listener = False, nb_calls = []\<rparr>"

definition button_render_resume :: "imara_button \<Rightarrow> imara_button" where
  "button_render_resume st = updateButton (st\<lparr>b_button := Some template_button\<rparr>)"

definition button_attachEventListeners :: "imara_button \<Rightarrow> imara_button" where
  "button_attachEventListeners st =
     (case b_button st of
        None \<Rightarrow> st
      | Some b \<Rightarrow> st\<lparr>b_button := Some (b\<lparr>nb_click_listener := True\<rparr>)\<rparr>)"

definition button_removeEventListeners :: "imara_button \<Rightarrow> imara_button" where
  "button_removeEventListeners st =
     (case b_button st of
        None \<Rightarrow> st
      | Some b \<Rightarrow> st\<lparr>b_button := Some (b\<lparr>nb_click_listener := False\<rparr>)\<rparr>)"

text \<open>The synchronous part of \<open>connectedCallback\<close>; \<open>button_render_resume\<close> follows it.\<close>

definition button_connectedCallback :: "imara_button \<Rightarrow> imara_button" where
  "button_connectedCallback st = button_attachEventListeners st"

definition button_disconnectedCallback :: "imara_button \<Rightarrow> imara_button" where
  "button_disconnectedCallback st = button_removeEventListeners st"






section \<open>Single-line input (imara-input.js)\<close>

text \<open>
  The inner native \<open>input\<close> with the properties the widget assigns, whether the four
  handlers are registered on it, and the native methods called on it.
\<close>

record native_input =
  ni_type :: string
  ni_value :: string
  ni_placeholder :: string
  ni_name :: string
  ni_disabled :: bool
  ni_readOnly :: bool
  ni_required :: bool
  ni_attrs :: attrs
  ni_listeners :: bool
  ni_calls :: "string list"

text \<open>
  The form internals: the submitted value and the validity flag set by \<open>setValidity\<close>
  (\<open>None\<close> for valid, otherwise the message of the custom error).
\<close>

record form_internals =
  fi_form_value :: "string option"
  fi_custom_error :: "string option"

record imara_input =
  i_attrs :: attrs
  inputElement :: "native_input option"
  labelElement :: "string option"
  internals :: "form_internals option"
  i_events :: "custom_event list"

definition input_observedAttributes :: "string list" where
  "input_observedAttributes =
     [''type'', ''value'', ''placeholder'', ''label'',
      ''disabled'', ''readonly'', ''required'', ''error'', ''name'']"

text \<open>
  The constructor; \<open>has_internals\<close> says whether the platform offers \<open>attachInternals\<close>.
\<close>

definition input_constructor :: "bool \<Rightarrow> imara_input" where
  "input_constructor has_internals =
     \<lparr>i_attrs = Map.empty, inputElement = None, labelElement = None,
      internals = (if has_internals
                   then Some \<lparr>fi_form_value = None, fi_custom_error = None\<rparr> else None),
      i_events = []\<rparr>"

definition setFormValue :: "string \<Rightarrow> imara_input \<Rightarrow> imara_input" where
  "setFormValue v st =
     (case internals st of
        None \<Rightarrow> st
      | Some fi \<Rightarrow> st\<lparr>internals := Some (fi\<lparr>fi_form_value := Some v\<rparr>)\<rparr>)"

text \<open>
  \<open>updateInputState\<close>. The native validity of the inner control
  (\<open>inputElement.validity.valid\<close>) is computed by the platform and is the parameter
  \<open>native_valid\<close>. \<open>toggleAttribute('aria-disabled', \<dots>)\<close> writes an attribute of
  the host that is not observed: it adds the attribute with an empty value when it is
  missing, keeps it when present, or removes it.
\<close>

definition updateInputState :: "(native_input \<Rightarrow> bool) \<Rightarrow> imara_input \<Rightarrow> imara_input" where
  "updateInputState native_valid st =
     (case inputElement st of
        None \<Rightarrow> st
      | Some ni \<Rightarrow>
         (case labelElement st of
            None \<Rightarrow> st
          | Some _ \<Rightarrow>
              let type = or_default (i_attrs st ''type'') ''text'';
                  v = or_default (i_attrs st ''value'') '''';
                  placeholder = or_default (i_attrs st ''placeholder'') '''';
                  label = or_default (i_attrs st ''label'') '''';
                  name = or_default (i_attrs st ''name'') '''';
                  isDisabled = (i_attrs st ''disabled'' \<noteq> None);
                  isReadonly = (i_attrs st ''readonly'' \<noteq> None);
                  isRequired = (i_attrs st ''required'' \<noteq> None);
                  hasError = (i_attrs st ''error'' \<noteq> None);
                  ni' = ni\<lparr>ni_type := type,
                           ni_value := (if ni_value ni \<noteq> v then v else ni_value ni),
                           ni_placeholder := placeholder,
                           ni_name := (if name \<noteq> [] then name else ni_name ni),
                           ni_disabled := isDisabled,
                           ni_readOnly := isReadonly,
                           ni_required := isRequired,
                           ni_attrs := (ni_attrs ni)
                             (''aria-required'' \<mapsto> (if isRequired then ''true'' else ''false''),
                              ''aria-invalid'' \<mapsto> (if hasError then ''true'' else ''false''))\<rparr>;
                  host = (if isDisabled
                          then (if i_attrs st ''aria-disabled'' = None
                                then (i_attrs st)(''aria-disabled'' \<mapsto> '''')
                                else i_attrs st)
                          else (i_attrs st)(''aria-disabled'' := None));
                  fi' = (case internals st of
                           None \<Rightarrow> None
                         | Some fi \<Rightarrow>
                             Some (fi\<lparr>fi_form_value := Some v,
                                      fi_custom_error :=
                                        (if hasError then Some ''Invalid input''
                                         else if native_valid ni' then None
                                         else fi_custom_error fi)\<rparr>))
              in st\<lparr>i_attrs := host, inputElement := Some ni', labelElement := Some label,
                    internals := fi'\<rparr>))"

definition input_attributeChangedCallback ::
  "(native_input \<Rightarrow> bool) \<Rightarrow> string \<Rightarrow> string option \<Rightarrow> string option
     \<Rightarrow> imara_input \<Rightarrow> imara_input" where
  "input_attributeChangedCallback native_valid name oldValue newValue st =
     (if oldValue \<noteq> newValue then updateInputState native_valid st else st)"

definition input_setAttribute ::
  "(native_input \<Rightarrow> bool) \<Rightarrow> string \<Rightarrow> string \<Rightarrow> imara_input \<Rightarrow> imara_input" where
  "input_setAttribute native_valid name v st =
     (let old = i_attrs st name; st' = st\<lparr>i_attrs := (i_attrs st)(name \<mapsto> v)\<rparr>
      in if name \<in> set input_observedAttributes
         then input_attributeChangedCallback native_valid name old (Some v) st' else st')"

definition input_dispatch ::
  "string \<Rightarrow> (string \<times> detail_val) list \<Rightarrow> imara_input \<Rightarrow> imara_input" where
  "input_dispatch name detail st =
     st\<lparr>i_events := i_events st @
        [\<lparr>ev_name = name, ev_bubbles = True, ev_composed = True, ev_detail = detail\<rparr>]\<rparr>"

definition handleInput ::
  "(native_input \<Rightarrow> bool) \<Rightarrow> native_event \<Rightarrow> imara_input \<Rightarrow> imara_input" where
  "handleInput native_valid event st =
     input_dispatch ''input''
       [(''value'', DStr (target_value event)), (''inputType'', DStr (inputType event))]
       (setFormValue (target_value event)
         (input_setAttribute native_valid ''value'' (target_value event) st))"




text \<open>
  \<open>render\<close> is declared \<open>async\<close> but awaits nothing, so its body runs to the end within
  the call. It replaces the shadow tree by a new inner input and a label with empty text.
\<close>

definition template_input :: native_input where
  "template_input =
     \<lparr>ni_type = ''text'', ni_value = '''', ni_placeholder = '''', ni_name = '''',
      ni_disabled = False, ni_readOnly = False, ni_required = False,
      ni_attrs = [''class'' \<mapsto> ''input-field'', ''part'' \<mapsto> ''input'',
                  ''autocomplete'' \<mapsto> ''off''],
      ni_listeners = False, ni_calls = []\<rparr>"

definition input_render :: "imara_input \<Rightarrow> imara_input" where
  "input_render st = st\<lparr>inputElement := Some template_input, labelElement := Some ''''\<rparr>"

definition input_attachEventListeners :: "imara_input \<Rightarrow> imara_input" where
  "input_attachEventListeners st =
     (case inputElement st of
        None \<Rightarrow> st
      | Some ni \<Rightarrow> st\<lparr>inputElement := Some (ni\<lparr>ni_listeners := True\<rparr>)\<rparr>)"

definition input_removeEventListeners :: "imara_input \<Rightarrow> imara_input" where
  "input_removeEventListeners st =
     (case inputElement st of
        None \<Rightarrow> st
      | Some ni \<Rightarrow> st\<lparr>inputElement := Some (ni\<lparr>ni_listeners := False\<rparr>)\<rparr>)"

definition input_connectedCallback :: "(native_input \<Rightarrow> bool) \<Rightarrow> imara_input \<Rightarrow> imara_input" where
  "input_connectedCallback native_valid st =
     updateInputState native_valid (input_attachEventListeners (input_render st))"

definition input_disconnectedCallback :: "imara_input \<Rightarrow> imara_input" where
  "input_disconnectedCallback st = input_removeEventListeners st"

text \<open>The \<open>value\<close> property: \<open>this.inputElement?.value || ''\<close> and its setter.\<close>

definition input_get_value :: "imara_input \<Rightarrow> string" where
  "input_get_value st =
     (case inputElement st of
        None \<Rightarrow> ''''
      | Some ni \<Rightarrow> if ni_value ni = [] then '''' else ni_value ni)"

definition input_set_value ::
  "(native_input \<Rightarrow> bool) \<Rightarrow> string \<Rightarrow> imara_input \<Rightarrow> imara_input" where
  "input_set_value native_valid val st = input_setAttribute native_valid ''value'' val st"






text \<open>
  One accepted keystroke: the inner control has appended the character to its text and
  fires its \<open>input\<close> event, which runs \<open>handleInput\<close> when the listeners are attached.
  Typing a string is one keystroke per character, in order.
\<close>

definition input_keystroke ::
  "(native_input \<Rightarrow> bool) \<Rightarrow> imara_input \<Rightarrow> char \<Rightarrow> imara_input" where
  "input_keystroke native_valid st c =
     (case inputElement st of
        None \<Rightarrow> st
      | Some ni \<Rightarrow>
          let v = ni_value ni @ [c];
              st' = st\<lparr>inputElement := Some (ni\<lparr>ni_value := v\<rparr>)\<rparr>
          in if ni_listeners ni
             then handleInput native_valid (fresh_event v ''insertText'') st' else st')"

definition input_type_string ::
  "(native_input \<Rightarrow> bool) \<Rightarrow> string \<Rightarrow> imara_input \<Rightarrow> imara_input" where
  "input_type_string native_valid s st = foldl (input_keystroke native_valid) st s"

section \<open>Numbers and strings of the host language\<close>

text \<open>
  \<open>show_nat\<close> is the decimal text a template literal produces for a non-negative integer.
\<close>

definition digit_char :: "nat \<Rightarrow> char" where
  "digit_char d = ''0123456789'' ! d"

fun show_nat :: "nat \<Rightarrow> string" where
  "show_nat n = (if n < 10 then [digit_char n] else show_nat (n div 10) @ [digit_char (n mod 10)])"

declare show_nat.simps [simp del]

text \<open>
  White space as \<open>trim\<close> and \<open>parseInt\<close> skip it, for code units below 256: tab, line
  feed, vertical tab, form feed, carriage return, space and no-break space.
\<close>

definition is_ws :: "char \<Rightarrow> bool" where
  "is_ws c = (of_char c \<in> set [9, 10, 11, 12, 13, 32, 160 :: nat])"

definition trim :: "string \<Rightarrow> string" where
  "trim s = rev (dropWhile is_ws (rev (dropWhile is_ws s)))"

datatype js_number = NaN | Num int

definition digit_val :: "char \<Rightarrow> nat" where
  "digit_val c = of_char c - 48"

definition digits_val :: "string \<Rightarrow> nat" where
  "digits_val ds = foldl (\<lambda>a c. 10 * a + digit_val c) 0 ds"

text \<open>
  \<open>parseInt(s, 10)\<close>: leading white space is skipped, one sign is read, then the longest
  run of decimal digits; without a digit the result is \<open>NaN\<close>. The integer is exact here
  (the host rounds beyond 2^53).
\<close>

definition parseInt10 :: "string \<Rightarrow> js_number" where
  "parseInt10 s =
     (let t = dropWhile is_ws s;
          neg = (case t of [] \<Rightarrow> False | c # _ \<Rightarrow> c = CHR ''-'');
          u = (case t of [] \<Rightarrow> [] | c # r \<Rightarrow> if c = CHR ''-'' \<or> c = CHR ''+'' then r else t);
          ds = takeWhile is_digit u
      in if ds = [] then NaN
         else Num (if neg then - int (digits_val ds) else int (digits_val ds)))"

datatype js_error = SyntaxError | IndexSizeError

text \<open>
  A call either returns or throws; in both cases the state holds the assignments made so
  far.
\<close>

datatype 's outcome = Done 's | Threw js_error 's

definition and_then :: "'s outcome \<Rightarrow> ('s \<Rightarrow> 's outcome) \<Rightarrow> 's outcome" where
  "and_then r f = (case r of Done s \<Rightarrow> f s | Threw e s \<Rightarrow> Threw e s)"

definition outcome_state :: "'s outcome \<Rightarrow> 's" where
  "outcome_state r = (case r of Done s \<Rightarrow> s | Threw e s \<Rightarrow> s)"

definition returns :: "'s outcome \<Rightarrow> bool" where
  "returns r = (case r of Done s \<Rightarrow> True | Threw e s \<Rightarrow> False)"

text \<open>
  Assigning to the \<open>maxLength\<close> or \<open>minLength\<close> property of a native textarea: \<open>NaN\<close> is
  converted to 0, a negative number is refused with an \<open>IndexSizeError\<close>, any other number
  is stored (32-bit wrap-around is left out).
\<close>

definition set_length_property :: "js_number \<Rightarrow> js_error + int" where
  "set_length_property n =
     (case n of NaN \<Rightarrow> Inr 0 | Num k \<Rightarrow> if k < 0 then Inl IndexSizeError else Inr k)"

section \<open>Multi-line text widget (texteria.js)\<close>

text \<open>
  What the widget takes from the platform: the regular-expression engine
  (\<open>new RegExp(p)\<close> either throws a \<open>SyntaxError\<close>, here \<open>None\<close>, or gives the \<open>test\<close>
  function of the compiled expression) and the measured \<open>scrollHeight\<close> of the textarea
  for a given text.
\<close>

record platform =
  regexp :: "string \<Rightarrow> (string \<Rightarrow> bool) option"
  scrollHeight :: "string \<Rightarrow> nat"

text \<open>
  The widget. \<open>t_value\<close> is the field \<open>_value\<close>. The \<open>ta_\<close> fields are the inner native
  textarea: its text, the properties the widget assigns, its class list, its content
  attributes, its inline height and the native methods called on it. \<open>ta_rows\<close> and
  \<open>ta_cols\<close> hold the number last assigned to the property; \<open>ta_maxLength\<close> and
  \<open>ta_minLength\<close> are what the property reads, \<open>-1\<close> without the attribute. Then come
  the class list of the wrapper, the counter, the validation message, the label (its text
  and whether it has the class \<open>required\<close>), the dispatched events and the exceptions
  that escaped a callback and were reported by the platform.
\<close>

record texteria =
  t_attrs :: attrs
  t_value :: string
  isUserTyping :: bool
  ta_value :: string
  ta_placeholder :: string
  ta_disabled :: bool
  ta_rows :: js_number
  ta_cols :: js_number
  ta_maxLength :: int
  ta_minLength :: int
  ta_required :: bool
  ta_name :: string
  ta_classes :: "string set"
  ta_attrs :: attrs
  ta_height :: "string option"
  ta_calls :: "string list"
  container_classes :: "string set"
  counter_text :: string
  counter_classes :: "string set"
  counter_display :: "string option"
  vm_text :: string
  vm_classes :: "string set"
  vm_id :: "string option"
  t_label :: "(string \<times> bool) option"
  t_events :: "custom_event list"
  t_reported :: "js_error list"

definition texteria_observedAttributes :: "string list" where
  "texteria_observedAttributes =
     [''value'', ''placeholder'', ''disabled'', ''rows'', ''cols'', ''maxlength'',
      ''minlength'', ''required'', ''auto-resize'', ''pattern'', ''label'', ''name'',
      ''validation-message'', ''show-counter'']"

text \<open>The constructor; a native textarea starts with 2 rows and 20 columns.\<close>

definition texteria_constructor :: texteria where
  "texteria_constructor =
     \<lparr>t_attrs = Map.empty, t_value = '''', isUserTyping = False,
      ta_value = '''', ta_placeholder = '''', ta_disabled = False,
      ta_rows = Num 2, ta_cols = Num 20, ta_maxLength = -1, ta_minLength = -1,
      ta_required = False, ta_name = '''',
      ta_classes = {''texteria-input''},
      ta_attrs = [''aria-label'' \<mapsto> ''Text input area''],
      ta_height = None, ta_calls = [],
      container_classes = {''texteria-container''},
      counter_text = '''', counter_classes = {''texteria-counter''}, counter_display = None,
      vm_text = '''', vm_classes = {''texteria-validation''}, vm_id = None,
      t_label = None, t_events = [], t_reported = []\<rparr>"

definition toggle_class :: "string \<Rightarrow> bool \<Rightarrow> string set \<Rightarrow> string set" where
  "toggle_class c force cs = (if force then insert c cs else cs - {c})"

definition getEventDetail :: "texteria \<Rightarrow> (string \<times> detail_val) list" where
  "getEventDetail st =
     [(''value'', DStr (t_value st)), (''characterCount'', DNum (length (t_value st)))]"

definition texteria_dispatch :: "string \<Rightarrow> texteria \<Rightarrow> texteria" where
  "texteria_dispatch name st =
     st\<lparr>t_events := t_events st @
        [\<lparr>ev_name = name, ev_bubbles = True, ev_composed = True,
          ev_detail = getEventDetail st\<rparr>]\<rparr>"

text \<open>
  \<open>updateCharCounter\<close>. The percentage is a quotient of two integers below 2^31 times
  100; it is computed here in exact rational arithmetic.
\<close>

definition updateCharCounter :: "texteria \<Rightarrow> texteria" where
  "updateCharCounter st =
     (let currentLength = length (t_value st);
          maxLength = ta_maxLength st
      in if maxLength > 0
         then
           let percentage = (of_nat currentLength / of_int maxLength) * (100 :: rat);
               cleared = counter_classes st - {''warning'', ''error''}
           in st\<lparr>counter_text := show_nat currentLength @ '' / '' @ show_nat (nat maxLength),
                 counter_classes :=
                   (if percentage \<ge> 100 then insert ''error'' cleared
                    else if percentage \<ge> 90 then insert ''warning'' cleared
                    else cleared)\<rparr>
         else st\<lparr>counter_text := show_nat currentLength\<rparr>)"

text \<open>
  \<open>updateValidation\<close> in its two halves. The first computes \<open>isValid\<close> and \<open>message\<close>
  from the three rules, in the order of the \<open>if\<close> chain, or throws when \<open>new RegExp\<close>
  rejects the pattern; the second, from the comment \<open>Update UI\<close> on, shows the result.
\<close>

definition validation_rules :: "platform \<Rightarrow> texteria \<Rightarrow> js_error + (bool \<times> string)" where
  "validation_rules P st =
     (let pattern = t_attrs st ''pattern'';
          validationMsg = t_attrs st ''validation-message''
      in if ta_required st \<and> trim (t_value st) = []
         then Inr (False, or_default validationMsg ''This field is required'')
         else if ta_minLength st > 0 \<and> length (t_value st) > 0
                 \<and> int (length (t_value st)) < ta_minLength st
         then Inr (False,
                   or_default validationMsg
                     (''Minimum '' @ show_nat (nat (ta_minLength st)) @ '' characters required''))
         else if truthy pattern \<and> length (t_value st) > 0
         then (case regexp P (or_default pattern []) of
                 None \<Rightarrow> Inl SyntaxError
               | Some test \<Rightarrow>
                   if \<not> test (t_value st)
                   then Inr (False, or_default validationMsg ''Please match the required format'')
                   else Inr (True, []))
         else Inr (True, []))"

definition validation_update_ui :: "bool \<Rightarrow> string \<Rightarrow> texteria \<Rightarrow> texteria" where
  "validation_update_ui isValid message st =
     st\<lparr>ta_classes := toggle_class ''invalid'' (\<not> isValid) (ta_classes st),
        vm_text := message,
        vm_classes := toggle_class ''visible'' (\<not> isValid \<and> message \<noteq> []) (vm_classes st),
        ta_attrs :=
          (if \<not> isValid \<and> message \<noteq> []
           then (ta_attrs st)(''aria-invalid'' \<mapsto> ''true'',
                              ''aria-describedby'' \<mapsto> ''validation-message'')
           else (ta_attrs st)(''aria-invalid'' := None, ''aria-describedby'' := None)),
        vm_id := (if \<not> isValid \<and> message \<noteq> [] then Some ''validation-message''
                  else vm_id st)\<rparr>"

definition updateValidation :: "platform \<Rightarrow> texteria \<Rightarrow> texteria outcome" where
  "updateValidation P st =
     (case validation_rules P st of
        Inl e \<Rightarrow> Threw e st
      | Inr (ok, message) \<Rightarrow> Done (validation_update_ui ok message st))"

definition autoResize :: "platform \<Rightarrow> texteria \<Rightarrow> texteria" where
  "autoResize P st =
     st\<lparr>container_classes := insert ''auto-resize'' (container_classes st),
        ta_height := Some (show_nat (max (scrollHeight P (ta_value st)) 60) @ ''px'')\<rparr>"

definition autoResize_if_enabled :: "platform \<Rightarrow> texteria \<Rightarrow> texteria" where
  "autoResize_if_enabled P st =
     (if t_attrs st ''auto-resize'' \<noteq> None then autoResize P st else st)"

definition updateLabel :: "string option \<Rightarrow> texteria \<Rightarrow> texteria" where
  "updateLabel text st =
     (case text of
        None \<Rightarrow> st\<lparr>t_label := None\<rparr>
      | Some t \<Rightarrow> if t = [] then st\<lparr>t_label := None\<rparr>
                  else st\<lparr>t_label := Some (t, ta_required st)\<rparr>)"

definition updateAriaAttributes :: "texteria \<Rightarrow> texteria" where
  "updateAriaAttributes st =
     (let a1 = (case t_attrs st ''label'' of
                  None \<Rightarrow> ta_attrs st
                | Some l \<Rightarrow> if l = [] then ta_attrs st else (ta_attrs st)(''aria-label'' \<mapsto> l));
          a2 = (if ta_required st then a1(''aria-required'' \<mapsto> ''true'')
                else a1(''aria-required'' := None))
      in st\<lparr>ta_attrs := a2\<rparr>)"

text \<open>The \<open>switch\<close> of \<open>attributeChangedCallback\<close>, one branch per attribute name.\<close>

definition texteria_attribute_switch ::
  "platform \<Rightarrow> string \<Rightarrow> string option \<Rightarrow> texteria \<Rightarrow> texteria outcome" where
  "texteria_attribute_switch P name newValue st =
     (if name = ''value'' then
        (if \<not> isUserTyping st
         then and_then
                (updateValidation P
                   (updateCharCounter
                      (st\<lparr>t_value := or_default newValue '''',
                          ta_value := or_default newValue ''''\<rparr>)))
                (\<lambda>s. Done (autoResize_if_enabled P s))
         else Done st)
      else if name = ''placeholder'' then Done (st\<lparr>ta_placeholder := or_default newValue ''''\<rparr>)
      else if name = ''disabled'' then
        Done (st\<lparr>ta_disabled := (newValue \<noteq> None),
                  container_classes :=
                    toggle_class ''disabled'' (newValue \<noteq> None) (container_classes st)\<rparr>)
      else if name = ''rows'' then Done (st\<lparr>ta_rows := parseInt10 (or_default newValue ''3'')\<rparr>)
      else if name = ''cols'' then Done (st\<lparr>ta_cols := parseInt10 (or_default newValue ''50'')\<rparr>)
      else if name = ''maxlength'' then
        (case newValue of
           None \<Rightarrow> Done (updateCharCounter (st\<lparr>ta_maxLength := -1\<rparr>))
         | Some v \<Rightarrow>
             if v = [] then Done (updateCharCounter (st\<lparr>ta_maxLength := -1\<rparr>))
             else (case set_length_property (parseInt10 v) of
                     Inl e \<Rightarrow> Threw e st
                   | Inr n \<Rightarrow> Done (updateCharCounter (st\<lparr>ta_maxLength := n\<rparr>))))
      else if name = ''minlength'' then
        (case newValue of
           None \<Rightarrow> Done (st\<lparr>ta_minLength := -1\<rparr>)
         | Some v \<Rightarrow>
             if v = [] then Done (st\<lparr>ta_minLength := -1\<rparr>)
             else (case set_length_property (parseInt10 v) of
                     Inl e \<Rightarrow> Threw e st
                   | Inr n \<Rightarrow> Done (st\<lparr>ta_minLength := n\<rparr>)))
      else if name = ''required'' then
        updateValidation P (st\<lparr>ta_required := (newValue \<noteq> None)\<rparr>)
      else if name = ''auto-resize'' then
        Done (if newValue \<noteq> None then autoResize P st else st)
      else if name = ''pattern'' then updateValidation P st
      else if name = ''label'' then Done (updateLabel newValue st)
      else if name = ''name'' then
        Done (case newValue of
                None \<Rightarrow> st
              | Some v \<Rightarrow> if v = [] then st else st\<lparr>ta_name := v\<rparr>)
      else if name = ''show-counter'' then
        Done (st\<lparr>counter_display := Some (if newValue \<noteq> None then ''block'' else ''none'')\<rparr>)
      else Done st)"

definition texteria_attributeChangedCallback ::
  "platform \<Rightarrow> string \<Rightarrow> string option \<Rightarrow> string option \<Rightarrow> texteria \<Rightarrow> texteria outcome" where
  "texteria_attributeChangedCallback P name oldValue newValue st =
     (if oldValue = newValue then Done st
      else and_then (texteria_attribute_switch P name newValue st)
             (\<lambda>s. Done (updateAriaAttributes s)))"

text \<open>
  \<open>setAttribute\<close> on the host. The platform runs the callback of an observed attribute
  before \<open>setAttribute\<close> returns; an exception thrown by the callback is reported by the
  platform and does not reach the caller of \<open>setAttribute\<close>.
\<close>

definition report :: "texteria outcome \<Rightarrow> texteria" where
  "report r =
     (case r of
        Done s \<Rightarrow> s
      | Threw e s \<Rightarrow> s\<lparr>t_reported := t_reported s @ [e]\<rparr>)"

definition texteria_setAttribute :: "platform \<Rightarrow> string \<Rightarrow> string \<Rightarrow> texteria \<Rightarrow> texteria" where
  "texteria_setAttribute P name v st =
     (let old = t_attrs st name; st' = st\<lparr>t_attrs := (t_attrs st)(name \<mapsto> v)\<rparr>
      in if name \<in> set texteria_observedAttributes
         then report (texteria_attributeChangedCallback P name old (Some v) st') else st')"

definition texteria_removeAttribute :: "platform \<Rightarrow> string \<Rightarrow> texteria \<Rightarrow> texteria" where
  "texteria_removeAttribute P name st =
     (case t_attrs st name of
        None \<Rightarrow> st
      | Some old \<Rightarrow>
          let st' = st\<lparr>t_attrs := (t_attrs st)(name := None)\<rparr>
          in if name \<in> set texteria_observedAttributes
             then report (texteria_attributeChangedCallback P name (Some old) None st') else st')"

definition texteria_connectedCallback :: "platform \<Rightarrow> texteria \<Rightarrow> texteria outcome" where
  "texteria_connectedCallback P st =
     and_then (updateValidation P (updateCharCounter st))
       (\<lambda>s. Done (updateAriaAttributes (autoResize_if_enabled P s)))"

text \<open>
  The listener that \<open>bindEvents\<close> registers for the \<open>input\<close> event of the textarea. It
  reads the text the textarea holds when the event fires.
\<close>

definition texteria_on_input :: "platform \<Rightarrow> texteria \<Rightarrow> texteria outcome" where
  "texteria_on_input P st =
     (let s1 = st\<lparr>isUserTyping := True\<rparr>;
          s2 = s1\<lparr>t_value := ta_value s1\<rparr>;
          s3 = texteria_setAttribute P ''value'' (t_value s2) s2
      in and_then (updateValidation P (updateCharCounter s3))
           (\<lambda>s. Done ((texteria_dispatch ''texteria-input'' (autoResize_if_enabled P s))
                         \<lparr>isUserTyping := False\<rparr>)))"




text \<open>The public methods.\<close>

definition getValue :: "texteria \<Rightarrow> string" where
  "getValue st = t_value st"

definition setValue :: "platform \<Rightarrow> string \<Rightarrow> texteria \<Rightarrow> texteria outcome" where
  "setValue P v st =
     (let s1 = st\<lparr>t_value := v, ta_value := v\<rparr>;
          s2 = texteria_setAttribute P ''value'' v s1
      in and_then (updateValidation P (updateCharCounter s2))
           (\<lambda>s. Done (autoResize_if_enabled P s)))"






definition isValid :: "texteria \<Rightarrow> bool" where
  "isValid st = (''invalid'' \<notin> ta_classes st)"

definition getCharacterCount :: "texteria \<Rightarrow> nat" where
  "getCharacterCount st = length (t_value st)"

definition getRemainingCharacters :: "texteria \<Rightarrow> int" where
  "getRemainingCharacters st =
     (if ta_maxLength st > 0 then ta_maxLength st - int (length (t_value st)) else -1)"

text \<open>
  One accepted keystroke: the textarea has appended the character to its text and fires
  its \<open>input\<close> event; an exception that escapes the listener is reported by the platform.
  Typing a string is one keystroke per character, in order.
\<close>

definition texteria_keystroke :: "platform \<Rightarrow> texteria \<Rightarrow> char \<Rightarrow> texteria" where
  "texteria_keystroke P st c = report (texteria_on_input P (st\<lparr>ta_value := ta_value st @ [c]\<rparr>))"

definition texteria_type_string :: "platform \<Rightarrow> string \<Rightarrow> texteria \<Rightarrow> texteria" where
  "texteria_type_string P s st = foldl (texteria_keystroke P) st s"

section \<open>Concrete platforms and widgets used in the examples\<close>

text \<open>
  A stand-in for the host's regular-expression engine on the two patterns the examples
  use: \<open>(\<close> is not a regular expression (an unterminated group), and \<open>^[0-9]+$\<close> matches
  the non-empty strings of digits. No example uses another pattern.
\<close>

definition sample_regexp :: "string \<Rightarrow> (string \<Rightarrow> bool) option" where
  "sample_regexp p =
     (if p = ''('' then None
      else if p = ''^[0-9]+$'' then Some all_digits
      else Some (\<lambda>s. True))"

definition sample_platform :: platform where
  "sample_platform = \<lparr>regexp = sample_regexp, scrollHeight = (\<lambda>s. 0)\<rparr>"

definition always_valid :: "native_input \<Rightarrow> bool" where
  "always_valid ni = True"

text \<open>A text widget in the middle of handling a keystroke.\<close>

definition typing_state :: texteria where
  "typing_state = texteria_constructor\<lparr>isUserTyping := True, t_value := ''a'', ta_value := ''a''\<rparr>"

text \<open>
  A text widget with \<open>maxlength="10"\<close>, and the same widget after 9, 10 and 5 characters
  have been typed; a text widget without \<open>maxlength\<close> after three characters.
\<close>

definition ten_max :: texteria where
  "ten_max = texteria_setAttribute sample_platform ''maxlength'' ''10'' texteria_constructor"

definition nine_of_ten :: texteria where
  "nine_of_ten = texteria_type_string sample_platform ''123456789'' ten_max"

definition ten_of_ten :: texteria where
  "ten_of_ten = texteria_type_string sample_platform ''1234567890'' ten_max"

definition five_of_ten :: texteria where
  "five_of_ten = texteria_type_string sample_platform ''12345'' ten_max"

definition three_unbounded :: texteria where
  "three_unbounded = texteria_type_string sample_platform ''abc'' texteria_constructor"

text \<open>
  Widgets carrying \<open>disabled\<close>: an input that has been connected, a text widget, and a
  button. The button has been connected, has finished rendering, and has been disconnected
  and connected again, so that its inner button exists and carries the click listener.
\<close>

definition disabled_input :: imara_input where
  "disabled_input =
     input_connectedCallback always_valid
       (input_setAttribute always_valid ''disabled'' [] (input_constructor True))"

definition disabled_texteria :: texteria where
  "disabled_texteria = texteria_setAttribute sample_platform ''disabled'' [] texteria_constructor"

definition reconnected :: "imara_button \<Rightarrow> imara_button" where
  "reconnected st =
     button_connectedCallback
       (button_disconnectedCallback (button_render_resume (button_connectedCallback st)))"

definition disabled_button :: imara_button where
  "disabled_button = reconnected (button_setAttribute ''disabled'' [] button_constructor)"




text \<open>A container with \<open>gap="8"\<close>, synchronised.\<close>

definition gap_eight :: imara_container where
  "gap_eight =
     sync \<lparr>c_attrs = [''gap'' \<mapsto> ''8''], c_has_container = True,
           c_style = Map.empty, c_writes = []\<rparr>"

text \<open>
  Text widgets for the validation rules: required with a value of two spaces; a minimum
  length of 5 with three characters; the digits pattern with letters and with digits; three
  characters set first and the minimum length of 5 set afterwards.
\<close>

definition required_blank :: texteria where
  "required_blank =
     outcome_state (setValue sample_platform ''  ''
       (texteria_setAttribute sample_platform ''required'' [] texteria_constructor))"

definition short_text :: texteria where
  "short_text =
     outcome_state (setValue sample_platform ''abc''
       (texteria_setAttribute sample_platform ''minlength'' ''5'' texteria_constructor))"

definition letters_for_digits :: texteria where
  "letters_for_digits =
     outcome_state (setValue sample_platform ''abc''
       (texteria_setAttribute sample_platform ''pattern'' ''^[0-9]+$'' texteria_constructor))"

definition digits_for_digits :: texteria where
  "digits_for_digits =
     outcome_state (setValue sample_platform ''123''
       (texteria_setAttribute sample_platform ''pattern'' ''^[0-9]+$'' texteria_constructor))"

definition minlength_afterwards :: texteria where
  "minlength_afterwards =
     texteria_setAttribute sample_platform ''minlength'' ''5''
       (outcome_state (setValue sample_platform ''abc'' texteria_constructor))"

text \<open>A text widget whose \<open>pattern\<close> attribute is not a regular expression.\<close>

definition bad_pattern :: texteria where
  "bad_pattern = texteria_setAttribute sample_platform ''pattern'' ''('' texteria_constructor"

section \<open>The validation rules as the specification words them\<close>

text \<open>
  The verdict the specification describes for the text widget, kept apart from the code's
  \<open>validation_rules\<close> for comparison: \<open>required\<close> fails on the empty value, the minimum
  length on a shorter non-empty value, the pattern on a non-empty value it does not match;
  the first failing rule gives the message, otherwise the widget is valid.
\<close>

definition claimed_validity ::
  "bool \<Rightarrow> int \<Rightarrow> (string \<Rightarrow> bool) option \<Rightarrow> string \<Rightarrow> bool \<times> string" where
  "claimed_validity required minlength pattern_test v =
     (if required \<and> v = [] then (False, ''This field is required'')
      else if v \<noteq> [] \<and> int (length v) < minlength
      then (False, ''Minimum '' @ show_nat (nat minlength) @ '' characters required'')
      else if v \<noteq> [] \<and> (case pattern_test of None \<Rightarrow> False | Some test \<Rightarrow> \<not> test v)
      then (False, ''Please match the required format'')
      else (True, []))"

section \<open>Field values computed by the steps of the text widget\<close>

text \<open>
  Each step of the text widget assigns a few fields. The functions below give the value a
  step leaves in a field, in terms of the fields it reads; the lemmas about the steps are
  stated with them.
\<close>

definition aria_attrs :: "attrs \<Rightarrow> bool \<Rightarrow> attrs \<Rightarrow> attrs" where
  "aria_attrs host required a =
     (let a1 = (case host ''label'' of
                  None \<Rightarrow> a
                | Some l \<Rightarrow> if l = [] then a else a(''aria-label'' \<mapsto> l))
      in if required then a1(''aria-required'' \<mapsto> ''true'') else a1(''aria-required'' := None))"

definition validity_attrs :: "bool \<Rightarrow> string \<Rightarrow> attrs \<Rightarrow> attrs" where
  "validity_attrs ok m a =
     (if \<not> ok \<and> m \<noteq> []
      then a(''aria-invalid'' \<mapsto> ''true'', ''aria-describedby'' \<mapsto> ''validation-message'')
      else a(''aria-invalid'' := None, ''aria-describedby'' := None))"

definition counter_shown :: "string \<Rightarrow> int \<Rightarrow> string" where
  "counter_shown v maxLength =
     (if maxLength > 0 then show_nat (length v) @ '' / '' @ show_nat (nat maxLength)
      else show_nat (length v))"

definition counter_severity :: "string \<Rightarrow> int \<Rightarrow> string set \<Rightarrow> string set" where
  "counter_severity v maxLength cs =
     (if maxLength > 0
      then (if (of_nat (length v) / of_int maxLength) * (100 :: rat) \<ge> 100
            then insert ''error'' (cs - {''warning'', ''error''})
            else if (of_nat (length v) / of_int maxLength) * (100 :: rat) \<ge> 90
            then insert ''warning'' (cs - {''warning'', ''error''})
            else cs - {''warning'', ''error''})
      else cs)"


text \<open>What \<open>setVar\<close> leaves for a custom property of the container.\<close>

definition var_value :: "string \<Rightarrow> string option" where
  "var_value v = (if v = ''auto'' then None else Some v)"

section \<open>What typing produces\<close>

text \<open>
  The texts a control holds after each keystroke when \<open>s\<close> is typed into a control that
  holds \<open>v\<close>, and the event each widget dispatches for a text.
\<close>

fun values_typed :: "string \<Rightarrow> string \<Rightarrow> string list" where
  "values_typed v [] = []"
| "values_typed v (c # s) = (v @ [c]) # values_typed (v @ [c]) s"

definition input_event_for :: "string \<Rightarrow> custom_event" where
  "input_event_for v =
     \<lparr>ev_name = ''input'', ev_bubbles = True, ev_composed = True,
      ev_detail = [(''value'', DStr v), (''inputType'', DStr ''insertText'')]\<rparr>"

definition texteria_input_event_for :: "string \<Rightarrow> custom_event" where
  "texteria_input_event_for v =
     \<lparr>ev_name = ''texteria-input'', ev_bubbles = True, ev_composed = True,
      ev_detail = [(''value'', DStr v), (''characterCount'', DNum (length v))]\<rparr>"

text \<open>The pattern of a text widget is absent, empty, or accepted by the engine.\<close>

definition pattern_accepted :: "platform \<Rightarrow> attrs \<Rightarrow> bool" where
  "pattern_accepted P a =
     (case a ''pattern'' of
        None \<Rightarrow> True
      | Some p \<Rightarrow> p = [] \<or> regexp P p \<noteq> None)"

text \<open>
  The counter is current: its text and its classes are the ones \<open>updateCharCounter\<close>
  computes from the value and the maximum length the widget has now.
\<close>

definition counter_current :: "texteria \<Rightarrow> bool" where
  "counter_current st =
     (counter_text st = counter_shown (t_value st) (ta_maxLength st)
      \<and> counter_classes st
          = counter_severity (t_value st) (ta_maxLength st) (counter_classes st))"



section \<open>Container: the grid template\<close>

lemma sync_grid_property:
  assumes "c_has_container st" and "c_attrs st ''layout'' = Some ''grid''"
  shows "c_style (sync st) ''--grid-template-columns'' =
           Some (grid_template (c_attrs st ''columns'') (c_attrs st ''min-column-width''))"
  using assms
  by (simp add: sync_def sync_tail_def applyLayout_def valid_layout_def truthy_def
      applyFlex_def applyGrid_def applySpacing_def applySizing_def setVar_def
      setProperty_def removeProperty_def)

text \<open>
  C9, as the code has it. In grid layout the template written to
  \<open>--grid-template-columns\<close> is \<open>repeat(n, 1fr)\<close> exactly when the \<open>columns\<close> attribute
  is a non-empty string of decimal digits \<open>n\<close> (so also for \<open>0\<close>); otherwise it is
  \<open>repeat(auto-fit, minmax(w, 1fr))\<close>, where \<open>w\<close> is the \<open>min-column-width\<close> attribute,
  \<open>250px\<close> when that is absent or empty, with \<open>px\<close> appended when it is all digits and
  verbatim otherwise.
\<close>

theorem C9_grid_template:
  assumes "c_has_container st" and "c_attrs st ''layout'' = Some ''grid''"
  shows "c_style (sync st) ''--grid-template-columns'' =
           Some (let w = (case c_attrs st ''min-column-width'' of
                            None \<Rightarrow> ''250px''
                          | Some m \<Rightarrow> if m = [] then ''250px''
                                      else if all_digits m then m @ ''px'' else m)
                 in case c_attrs st ''columns'' of
                      None \<Rightarrow> ''repeat(auto-fit, minmax('' @ w @ '', 1fr))''
                    | Some n \<Rightarrow> if all_digits n then ''repeat('' @ n @ '', 1fr)''
                                else ''repeat(auto-fit, minmax('' @ w @ '', 1fr))'')"
proof -
  have "all_digits ''250px'' = False"
    by (simp add: all_digits_def is_digit_def)
  then show ?thesis
    using sync_grid_property [OF assms]
    by (auto simp: grid_template_def normalizeUnit_def or_default_def Let_def all_digits_def
        split: option.splits)
qed

theorem C9_grid_template_witness:
  "c_has_container grid_three \<and> c_attrs grid_three ''layout'' = Some ''grid''
   \<and> c_style (sync grid_three) ''--grid-template-columns'' = Some ''repeat(3, 1fr)''
   \<and> c_has_container (grid_min_width ''200px'')
   \<and> c_attrs (grid_min_width ''200px'') ''layout'' = Some ''grid''
   \<and> c_style (sync (grid_min_width ''200px'')) ''--grid-template-columns''
       = Some ''repeat(auto-fit, minmax(200px, 1fr))''
   \<and> c_style (sync (grid_min_width ''200'')) ''--grid-template-columns''
       = Some ''repeat(auto-fit, minmax(200px, 1fr))''"
proof -
  have h1: "c_has_container grid_three" by (simp add: grid_three_def)
  have h2: "c_attrs grid_three ''layout'' = Some ''grid''" by (simp add: grid_three_def)
  have d: "all_digits ''3''" by (simp add: all_digits_def is_digit_def)
  have c: "c_attrs grid_three ''columns'' = Some ''3''" by (simp add: grid_three_def)
  have m: "c_attrs grid_three ''min-column-width'' = None" by (simp add: grid_three_def)
  have three: "c_style (sync grid_three) ''--grid-template-columns'' = Some ''repeat(3, 1fr)''"
    using C9_grid_template [OF h1 h2] by (simp add: c m d)
  have g1: "c_has_container (grid_min_width w)" for w by (simp add: grid_min_width_def)
  have g2: "c_attrs (grid_min_width w) ''layout'' = Some ''grid''" for w
    by (simp add: grid_min_width_def)
  have g3: "c_attrs (grid_min_width w) ''columns'' = None"
    "c_attrs (grid_min_width w) ''min-column-width'' = Some w" for w
    by (simp_all add: grid_min_width_def)
  have dg: "\<not> all_digits ''200px''" "all_digits ''200''"
    by (simp_all add: all_digits_def is_digit_def)
  have px: "c_style (sync (grid_min_width ''200px'')) ''--grid-template-columns''
       = Some ''repeat(auto-fit, minmax(200px, 1fr))''"
    using C9_grid_template [OF g1 g2, of "''200px''"] by (simp add: g3 dg)
  have bare: "c_style (sync (grid_min_width ''200'')) ''--grid-template-columns''
       = Some ''repeat(auto-fit, minmax(200px, 1fr))''"
    using C9_grid_template [OF g1 g2, of "''200''"] by (simp add: g3 dg)
  from h1 h2 three g1 g2 px bare show ?thesis by simp
qed

text \<open>
  C9 as stated fails at \<open>columns="0"\<close>: zero is not a positive integer, yet the template is
  the fixed \<open>repeat(0, 1fr)\<close> and not the auto-fit one.
\<close>

theorem C9_counterexample:
  "c_style (sync grid_zero) ''--grid-template-columns'' = Some ''repeat(0, 1fr)''
   \<and> c_style (sync grid_zero) ''--grid-template-columns''
       \<noteq> Some ''repeat(auto-fit, minmax(250px, 1fr))''"
proof -
  have h1: "c_has_container grid_zero" by (simp add: grid_zero_def)
  have h2: "c_attrs grid_zero ''layout'' = Some ''grid''" by (simp add: grid_zero_def)
  have d: "all_digits ''0''" by (simp add: all_digits_def is_digit_def)
  have c: "c_attrs grid_zero ''columns'' = Some ''0''" by (simp add: grid_zero_def)
  have "c_style (sync grid_zero) ''--grid-template-columns'' = Some ''repeat(0, 1fr)''"
    using sync_grid_property [OF h1 h2] by (simp add: c d grid_template_def Let_def)
  then show ?thesis by simp
qed

section \<open>Container: the steps of sync as style updates\<close>

lemma setVar_fields:
  "c_style (setVar n v st) = (c_style st)(n := var_value v)"
  "c_attrs (setVar n v st) = c_attrs st"
  "c_has_container (setVar n v st) = c_has_container st"
  by (simp_all add: setVar_def setProperty_def removeProperty_def var_value_def)

lemma applySpacing_fields:
  "c_style (applySpacing st) =
     (c_style st)(''--gap'' := var_value (normalizeUnit (c_attrs st ''gap'')),
                  ''--padding'' := var_value (resolvePadding (c_attrs st ''padding'')),
                  ''--margin'' := var_value (normalizeUnit (c_attrs st ''margin'')))"
  "c_attrs (applySpacing st) = c_attrs st"
  "c_has_container (applySpacing st) = c_has_container st"
  by (simp_all add: applySpacing_def setVar_fields)

lemma applySizing_fields:
  "c_style (applySizing st) =
     (c_style st)(''--width'' := var_value (normalizeUnit (c_attrs st ''width'')),
                  ''--height'' := var_value (normalizeUnit (c_attrs st ''height'')),
                  ''--max-width'' := var_value (normalizeUnit (c_attrs st ''max-width'')))"
  "c_attrs (applySizing st) = c_attrs st"
  "c_has_container (applySizing st) = c_has_container st"
  by (simp_all add: applySizing_def setVar_fields)

lemma applyGrid_fields:
  "c_style (applyGrid st) =
     (c_style st)(''--grid-template-columns'' :=
        (if c_attrs st ''layout'' = Some ''grid''
         then Some (grid_template (c_attrs st ''columns'') (c_attrs st ''min-column-width''))
         else None))"
  "c_attrs (applyGrid st) = c_attrs st"
  "c_has_container (applyGrid st) = c_has_container st"
  by (simp_all add: applyGrid_def setProperty_def removeProperty_def)

lemma applyFlex_fields:
  "c_style (applyFlex st) =
     (if c_attrs st ''layout'' = Some ''flex''
      then (c_style st)(''flex-direction'' \<mapsto> or_default (c_attrs st ''direction'') ''row'',
                        ''align-items'' \<mapsto> mapAlign (c_attrs st ''align''),
                        ''justify-content'' \<mapsto> mapJustify (c_attrs st ''justify''))
      else c_style st)"
  "c_attrs (applyFlex st) = c_attrs st"
  "c_has_container (applyFlex st) = c_has_container st"
  by (simp_all add: applyFlex_def setStyle_def)

lemmas step_fields = applySpacing_fields applySizing_fields applyGrid_fields applyFlex_fields

lemma sync_tail_attrs:
  "c_attrs (sync_tail st) = c_attrs st" "c_has_container (sync_tail st) = c_has_container st"
  by (simp_all add: sync_tail_def step_fields)

text \<open>The styles that \<open>sync_tail\<close> writes depend on the attributes only: a second run changes nothing.\<close>

lemma sync_tail_style_idem: "c_style (sync_tail (sync_tail st)) = c_style (sync_tail st)"
proof (rule ext)
  fix k
  show "c_style (sync_tail (sync_tail st)) k = c_style (sync_tail st) k"
    by (simp add: sync_tail_def step_fields)
qed

lemma applyLayout_attrs:
  "c_has_container (applyLayout st) = c_has_container st"
  "c_attrs (applyLayout st) = (if valid_layout (c_attrs st ''layout'') then c_attrs st
                               else (c_attrs st)(''layout'' := None))"
  by (auto simp: applyLayout_def sync_tail_attrs split: option.splits)

lemma applyLayout_settled:
  "valid_layout (c_attrs st ''layout'') \<or> c_attrs st ''layout'' = None \<Longrightarrow>
     c_style (applyLayout st) = c_style st \<and> c_attrs (applyLayout st) = c_attrs st"
  by (auto simp: applyLayout_def)

lemma sync_layout_settled:
  "c_has_container st \<Longrightarrow>
   valid_layout (c_attrs (sync st) ''layout'') \<or> c_attrs (sync st) ''layout'' = None"
  by (simp add: sync_def sync_tail_attrs applyLayout_attrs)

lemma sync_idem:
  "c_style (sync (sync st)) = c_style (sync st) \<and> c_attrs (sync (sync st)) = c_attrs (sync st)"
proof (cases "c_has_container st")
  case False
  then show ?thesis by (simp add: sync_def)
next
  case True
  have hc: "c_has_container (sync st)"
    using True by (simp add: sync_def sync_tail_attrs applyLayout_attrs)
  have eq: "sync st = sync_tail (applyLayout st)" using True by (simp add: sync_def)
  from applyLayout_settled [OF sync_layout_settled [OF True]]
  have al: "c_style (applyLayout (sync st)) = c_style (sync st)"
    "c_attrs (applyLayout (sync st)) = c_attrs (sync st)" by simp_all
  have "c_style (sync (sync st)) = c_style (sync_tail (applyLayout (sync st)))"
    using hc by (simp add: sync_def)
  also have "\<dots> = c_style (sync_tail (sync st))"
    using al by (simp add: sync_tail_def step_fields)
  also have "\<dots> = c_style (sync st)"
    unfolding eq by (rule sync_tail_style_idem)
  finally have s: "c_style (sync (sync st)) = c_style (sync st)" .
  have "c_attrs (sync (sync st)) = c_attrs (applyLayout (sync st))"
    using hc by (simp add: sync_def sync_tail_attrs)
  with al have a: "c_attrs (sync (sync st)) = c_attrs (sync st)" by simp
  from s a show ?thesis by simp
qed

section \<open>Text widget: the steps as field updates\<close>

lemma updateAriaAttributes_alt:
  "updateAriaAttributes s = s\<lparr>ta_attrs := aria_attrs (t_attrs s) (ta_required s) (ta_attrs s)\<rparr>"
  by (simp add: updateAriaAttributes_def aria_attrs_def Let_def)

lemma updateCharCounter_alt:
  "updateCharCounter s =
     s\<lparr>counter_text := counter_shown (t_value s) (ta_maxLength s),
       counter_classes := counter_severity (t_value s) (ta_maxLength s) (counter_classes s)\<rparr>"
  by (simp add: updateCharCounter_def counter_shown_def counter_severity_def Let_def)

lemma validation_update_ui_alt:
  "validation_update_ui ok m s =
     s\<lparr>ta_classes := toggle_class ''invalid'' (\<not> ok) (ta_classes s),
       vm_text := m,
       vm_classes := toggle_class ''visible'' (\<not> ok \<and> m \<noteq> []) (vm_classes s),
       ta_attrs := validity_attrs ok m (ta_attrs s),
       vm_id := (if \<not> ok \<and> m \<noteq> [] then Some ''validation-message'' else vm_id s)\<rparr>"
  by (simp add: validation_update_ui_def validity_attrs_def)

lemma autoResize_if_enabled_alt:
  "autoResize_if_enabled P s =
     s\<lparr>container_classes :=
         (if t_attrs s ''auto-resize'' \<noteq> None then insert ''auto-resize'' (container_classes s)
          else container_classes s),
       ta_height :=
         (if t_attrs s ''auto-resize'' \<noteq> None
          then Some (show_nat (max (scrollHeight P (ta_value s)) 60) @ ''px'')
          else ta_height s)\<rparr>"
  by (simp add: autoResize_if_enabled_def autoResize_def)

lemmas step_alt = updateAriaAttributes_alt updateCharCounter_alt validation_update_ui_alt
  autoResize_if_enabled_alt

lemma validation_rules_cong:
  assumes "ta_required a = ta_required b" and "t_value a = t_value b"
    and "ta_minLength a = ta_minLength b" and "t_attrs a = t_attrs b"
  shows "validation_rules P a = validation_rules P b"
  unfolding validation_rules_def assms by (rule refl)

lemma rules_after [simp]:
  "validation_rules P (updateCharCounter st) = validation_rules P st"
  "validation_rules P (validation_update_ui ok m st) = validation_rules P st"
  "validation_rules P (autoResize_if_enabled P st) = validation_rules P st"
  "validation_rules P (updateAriaAttributes st) = validation_rules P st"
  "validation_rules P (st\<lparr>t_reported := r\<rparr>) = validation_rules P st"
  by (rule validation_rules_cong; simp add: step_alt)+











section \<open>Text widget: the validation rules one by one\<close>

lemma validation_throws:
  assumes "t_attrs t ''pattern'' = Some p" and "p \<noteq> []" and "regexp P p = None"
    and "t_value t \<noteq> []"
    and "\<not> (ta_required t \<and> trim (t_value t) = [])"
    and "\<not> (0 < ta_minLength t \<and> int (length (t_value t)) < ta_minLength t)"
  shows "updateValidation P t = Threw SyntaxError t"
  using assms
  by (simp add: updateValidation_def validation_rules_def truthy_def or_default_def Let_def)

lemma shown_verdict:
  "\<not> isValid (validation_update_ui False m t)"
  "isValid (validation_update_ui True m t)"
  "vm_text (validation_update_ui ok m t) = m"
  by (simp_all add: isValid_def validation_update_ui_alt toggle_class_def)

lemma verdict_outcome:
  assumes "validation_rules P t = Inr (ok, m)"
  shows "returns (updateValidation P t)"
    and "isValid (outcome_state (updateValidation P t)) = ok"
    and "vm_text (outcome_state (updateValidation P t)) = m"
  using assms
  by (cases ok; simp add: updateValidation_def returns_def outcome_state_def shown_verdict)+

lemma rule_required:
  assumes "ta_required t \<and> trim (t_value t) = []"
  shows "validation_rules P t
    = Inr (False, or_default (t_attrs t ''validation-message'') ''This field is required'')"
  using assms by (simp add: validation_rules_def Let_def)

lemma rule_minlength:
  assumes "\<not> (ta_required t \<and> trim (t_value t) = [])"
    and "0 < ta_minLength t \<and> t_value t \<noteq> [] \<and> int (length (t_value t)) < ta_minLength t"
  shows "validation_rules P t
    = Inr (False, or_default (t_attrs t ''validation-message'')
             (''Minimum '' @ show_nat (nat (ta_minLength t)) @ '' characters required''))"
  using assms by (auto simp: validation_rules_def Let_def)

lemma rule_pattern:
  assumes "\<not> (ta_required t \<and> trim (t_value t) = [])"
    and "\<not> (0 < ta_minLength t \<and> t_value t \<noteq> [] \<and> int (length (t_value t)) < ta_minLength t)"
    and "t_attrs t ''pattern'' = Some p" and "p \<noteq> []" and "t_value t \<noteq> []"
    and "regexp P p = Some test" and "\<not> test (t_value t)"
  shows "validation_rules P t
    = Inr (False, or_default (t_attrs t ''validation-message'') ''Please match the required format'')"
  using assms by (auto simp: validation_rules_def Let_def truthy_def or_default_def)

lemma rule_valid:
  assumes "\<not> (ta_required t \<and> trim (t_value t) = [])"
    and "\<not> (0 < ta_minLength t \<and> t_value t \<noteq> [] \<and> int (length (t_value t)) < ta_minLength t)"
    and "t_attrs t ''pattern'' = None \<or> t_attrs t ''pattern'' = Some [] \<or> t_value t = []
         \<or> (t_attrs t ''pattern'' = Some p \<and> regexp P p = Some test \<and> test (t_value t))"
  shows "validation_rules P t = Inr (True, [])"
  using assms
  by (auto simp: validation_rules_def Let_def truthy_def or_default_def)

lemma validation_callbacks:
  assumes "old \<noteq> new"
  shows "texteria_attributeChangedCallback P ''required'' old new t
          = and_then (updateValidation P (t\<lparr>ta_required := (new \<noteq> None)\<rparr>))
              (\<lambda>s. Done (updateAriaAttributes s))"
    and "texteria_attributeChangedCallback P ''pattern'' old new t
          = and_then (updateValidation P t) (\<lambda>s. Done (updateAriaAttributes s))"
    and "\<not> isUserTyping t \<Longrightarrow>
        texteria_attributeChangedCallback P ''value'' old new t
          = and_then (updateValidation P
                        (updateCharCounter
                           (t\<lparr>t_value := or_default new [], ta_value := or_default new []\<rparr>)))
              (\<lambda>s. Done (updateAriaAttributes (autoResize_if_enabled P s)))"
  using assms
  by (simp_all add: texteria_attributeChangedCallback_def texteria_attribute_switch_def
      and_then_def split: outcome.splits)

section \<open>Typing into the single-line input\<close>

lemma updateInputState_keeps:
  "i_events (updateInputState nv s) = i_events s"
  "i_attrs (updateInputState nv s) ''value'' = i_attrs s ''value''"
  by (simp_all add: updateInputState_def Let_def split: option.splits)

lemma length_values_typed: "length (values_typed v s) = length s"
  by (induction s arbitrary: v) auto

lemma values_typed_empty: "values_typed v s = [] \<longleftrightarrow> s = []"
  by (cases s) auto

lemma last_values_typed: "s \<noteq> [] \<Longrightarrow> last (values_typed v s) = v @ s"
  by (induction s arbitrary: v) (auto simp: values_typed_empty)

lemma updateInputState_inner:
  assumes "inputElement st = Some ni" and "labelElement st \<noteq> None"
  shows "map_option ni_value (inputElement (updateInputState nv st))
           = Some (or_default (i_attrs st ''value'') [])"
    and "map_option ni_listeners (inputElement (updateInputState nv st)) = Some (ni_listeners ni)"
    and "labelElement (updateInputState nv st) \<noteq> None"
  using assms
  by (cases "labelElement st"; simp add: updateInputState_def Let_def)+

lemma input_setAttribute_value_inner:
  assumes "inputElement st = Some ni" and "labelElement st \<noteq> None" and "ni_value ni = v"
  shows "map_option ni_value (inputElement (input_setAttribute nv ''value'' v st)) = Some v"
    and "map_option ni_listeners (inputElement (input_setAttribute nv ''value'' v st))
           = Some (ni_listeners ni)"
    and "labelElement (input_setAttribute nv ''value'' v st) \<noteq> None"
    and "i_events (input_setAttribute nv ''value'' v st) = i_events st"
    and "i_attrs (input_setAttribute nv ''value'' v st) ''value'' = Some v"
proof -
  let ?st' = "st\<lparr>i_attrs := (i_attrs st)(''value'' \<mapsto> v)\<rparr>"
  have od: "or_default (i_attrs ?st' ''value'') [] = v" by (simp add: or_default_def)
  have pre: "inputElement ?st' = Some ni" "labelElement ?st' \<noteq> None" using assms by simp_all
  have sa: "input_setAttribute nv ''value'' v st
      = (if i_attrs st ''value'' \<noteq> Some v then updateInputState nv ?st' else ?st')"
    by (simp add: input_setAttribute_def input_observedAttributes_def Let_def
        input_attributeChangedCallback_def)
  show "map_option ni_value (inputElement (input_setAttribute nv ''value'' v st)) = Some v"
    using updateInputState_inner(1) [OF pre, of nv] od assms by (simp add: sa)
  show "map_option ni_listeners (inputElement (input_setAttribute nv ''value'' v st))
           = Some (ni_listeners ni)"
    using updateInputState_inner(2) [OF pre, of nv] assms by (simp add: sa)
  show "labelElement (input_setAttribute nv ''value'' v st) \<noteq> None"
    using updateInputState_inner(3) [OF pre, of nv] assms by (simp add: sa)
  show "i_events (input_setAttribute nv ''value'' v st) = i_events st"
    by (simp add: sa updateInputState_keeps)
  show "i_attrs (input_setAttribute nv ''value'' v st) ''value'' = Some v"
    by (simp add: sa updateInputState_keeps)
qed

lemma input_keystroke_step:
  assumes "inputElement st = Some ni" and "labelElement st \<noteq> None" and "ni_listeners ni"
  shows "map_option ni_value (inputElement (input_keystroke nv st c)) = Some (ni_value ni @ [c])"
    and "map_option ni_listeners (inputElement (input_keystroke nv st c)) = Some True"
    and "labelElement (input_keystroke nv st c) \<noteq> None"
    and "i_events (input_keystroke nv st c) = i_events st @ [input_event_for (ni_value ni @ [c])]"
    and "i_attrs (input_keystroke nv st c) ''value'' = Some (ni_value ni @ [c])"
proof -
  let ?v = "ni_value ni @ [c]"
  let ?st' = "st\<lparr>inputElement := Some (ni\<lparr>ni_value := ?v\<rparr>)\<rparr>"
  have pre: "inputElement ?st' = Some (ni\<lparr>ni_value := ?v\<rparr>)" "labelElement ?st' \<noteq> None"
    "ni_value (ni\<lparr>ni_value := ?v\<rparr>) = ?v"
    using assms by simp_all
  note sa = input_setAttribute_value_inner [OF pre, of nv]
  have k: "input_keystroke nv st c
      = input_dispatch ''input'' [(''value'', DStr ?v), (''inputType'', DStr ''insertText'')]
          (setFormValue ?v (input_setAttribute nv ''value'' ?v ?st'))"
    using assms by (simp add: input_keystroke_def Let_def handleInput_def fresh_event_def)
  have keep: "inputElement (input_dispatch n d (setFormValue w x)) = inputElement x"
    "labelElement (input_dispatch n d (setFormValue w x)) = labelElement x"
    "i_attrs (input_dispatch n d (setFormValue w x)) = i_attrs x"
    "i_events (input_dispatch n d (setFormValue w x))
       = i_events x @ [\<lparr>ev_name = n, ev_bubbles = True, ev_composed = True, ev_detail = d\<rparr>]"
    for n d w x
    by (simp_all add: input_dispatch_def setFormValue_def split: option.splits)
  show "map_option ni_value (inputElement (input_keystroke nv st c)) = Some ?v"
    using sa(1) by (simp add: k keep)
  show "map_option ni_listeners (inputElement (input_keystroke nv st c)) = Some True"
    using sa(2) assms(3) by (simp add: k keep)
  show "labelElement (input_keystroke nv st c) \<noteq> None"
    using sa(3) by (simp add: k keep)
  show "i_events (input_keystroke nv st c) = i_events st @ [input_event_for ?v]"
    using sa(4) by (simp add: k keep input_event_for_def)
  show "i_attrs (input_keystroke nv st c) ''value'' = Some ?v"
    using sa(5) by (simp add: k keep)
qed

lemma input_typing:
  assumes "inputElement st = Some ni" and "labelElement st \<noteq> None" and "ni_listeners ni"
  shows "i_events (input_type_string nv s st)
           = i_events st @ map input_event_for (values_typed (ni_value ni) s)
       \<and> map_option ni_value (inputElement (input_type_string nv s st)) = Some (ni_value ni @ s)
       \<and> (s \<noteq> [] \<longrightarrow> i_attrs (input_type_string nv s st) ''value'' = Some (ni_value ni @ s))"
  using assms
proof (induction s arbitrary: st ni)
  case Nil
  then show ?case by (simp add: input_type_string_def)
next
  case (Cons c s)
  let ?k = "input_keystroke nv st c"
  note step = input_keystroke_step [OF Cons.prems, of nv c]
  obtain ni' where ni': "inputElement ?k = Some ni'"
    using step(1) by (cases "inputElement ?k") auto
  have v: "ni_value ni' = ni_value ni @ [c]" and l: "ni_listeners ni'"
    using step(1,2) ni' by simp_all
  have ts: "input_type_string nv (c # s) st = input_type_string nv s ?k"
    by (simp add: input_type_string_def)
  from Cons.IH [OF ni' step(3) l]
  show ?case
    unfolding ts using step(4,5) v by (cases s) (auto simp: input_type_string_def)
qed

section \<open>Typing into the text widget when the pattern is accepted\<close>

lemma rules_accepted:
  assumes "pattern_accepted P (t_attrs st)"
  shows "\<exists>ok m. validation_rules P st = Inr (ok, m)"
proof (cases "t_attrs st ''pattern''")
  case None
  then show ?thesis by (auto simp: validation_rules_def Let_def truthy_def)
next
  case (Some p)
  show ?thesis
  proof (cases "p = []")
    case True
    with Some show ?thesis by (auto simp: validation_rules_def Let_def truthy_def)
  next
    case False
    with Some assms obtain test where "regexp P p = Some test"
      by (auto simp: pattern_accepted_def)
    with Some False show ?thesis
      by (auto simp: validation_rules_def Let_def truthy_def or_default_def)
  qed
qed

lemma setAttribute_while_typing:
  assumes "isUserTyping st"
  shows "texteria_setAttribute P ''value'' v st
     = (if t_attrs st ''value'' = Some v
        then st\<lparr>t_attrs := (t_attrs st)(''value'' \<mapsto> v)\<rparr>
        else updateAriaAttributes (st\<lparr>t_attrs := (t_attrs st)(''value'' \<mapsto> v)\<rparr>))"
  using assms
  by (simp add: texteria_setAttribute_def texteria_observedAttributes_def Let_def
      texteria_attributeChangedCallback_def texteria_attribute_switch_def and_then_def report_def)

lemma setAttribute_while_typing_fields:
  assumes "isUserTyping st"
  shows "t_value (texteria_setAttribute P ''value'' v st) = t_value st"
    and "ta_value (texteria_setAttribute P ''value'' v st) = ta_value st"
    and "t_attrs (texteria_setAttribute P ''value'' v st) = (t_attrs st)(''value'' \<mapsto> v)"
    and "t_events (texteria_setAttribute P ''value'' v st) = t_events st"
    and "t_reported (texteria_setAttribute P ''value'' v st) = t_reported st"
    and "ta_required (texteria_setAttribute P ''value'' v st) = ta_required st"
    and "ta_minLength (texteria_setAttribute P ''value'' v st) = ta_minLength st"
  by (simp_all add: setAttribute_while_typing [OF assms] updateAriaAttributes_alt)

lemma texteria_on_input_accepted:
  assumes "pattern_accepted P (t_attrs st)"
  shows "returns (texteria_on_input P st)"
    and "t_events (outcome_state (texteria_on_input P st))
           = t_events st @ [texteria_input_event_for (ta_value st)]"
    and "t_value (outcome_state (texteria_on_input P st)) = ta_value st"
    and "ta_value (outcome_state (texteria_on_input P st)) = ta_value st"
    and "t_attrs (outcome_state (texteria_on_input P st)) = (t_attrs st)(''value'' \<mapsto> ta_value st)"
    and "\<not> isUserTyping (outcome_state (texteria_on_input P st))"
    and "t_reported (outcome_state (texteria_on_input P st)) = t_reported st"
proof -
  let ?v = "ta_value st"
  let ?s2 = "st\<lparr>isUserTyping := True, t_value := ?v\<rparr>"
  let ?s3 = "texteria_setAttribute P ''value'' ?v ?s2"
  have ty: "isUserTyping ?s2" by simp
  note f = setAttribute_while_typing_fields [OF ty, of P ?v]
  have pa: "pattern_accepted P (t_attrs ?s3)"
    using assms by (simp add: f pattern_accepted_def)
  have "validation_rules P (updateCharCounter ?s3) = validation_rules P ?s3" by simp
  with rules_accepted [OF pa]
  obtain ok m where r: "validation_rules P (updateCharCounter ?s3) = Inr (ok, m)" by auto
  have oi: "texteria_on_input P st
      = Done ((texteria_dispatch ''texteria-input''
                (autoResize_if_enabled P (validation_update_ui ok m (updateCharCounter ?s3))))
              \<lparr>isUserTyping := False\<rparr>)"
    using r by (simp add: texteria_on_input_def Let_def and_then_def updateValidation_def)
  show "returns (texteria_on_input P st)" by (simp add: oi returns_def)
  show "t_events (outcome_state (texteria_on_input P st))
           = t_events st @ [texteria_input_event_for ?v]"
    by (simp add: oi outcome_state_def texteria_dispatch_def getEventDetail_def
        texteria_input_event_for_def step_alt f)
  show "t_value (outcome_state (texteria_on_input P st)) = ?v"
    by (simp add: oi outcome_state_def texteria_dispatch_def step_alt f)
  show "ta_value (outcome_state (texteria_on_input P st)) = ?v"
    by (simp add: oi outcome_state_def texteria_dispatch_def step_alt f)
  show "t_attrs (outcome_state (texteria_on_input P st)) = (t_attrs st)(''value'' \<mapsto> ?v)"
    by (simp add: oi outcome_state_def texteria_dispatch_def step_alt f)
  show "\<not> isUserTyping (outcome_state (texteria_on_input P st))"
    by (simp add: oi outcome_state_def)
  show "t_reported (outcome_state (texteria_on_input P st)) = t_reported st"
    by (simp add: oi outcome_state_def texteria_dispatch_def step_alt f)
qed

lemma texteria_keystroke_step:
  assumes "pattern_accepted P (t_attrs st)"
  shows "t_events (texteria_keystroke P st c)
           = t_events st @ [texteria_input_event_for (ta_value st @ [c])]"
    and "t_value (texteria_keystroke P st c) = ta_value st @ [c]"
    and "ta_value (texteria_keystroke P st c) = ta_value st @ [c]"
    and "t_attrs (texteria_keystroke P st c) ''value'' = Some (ta_value st @ [c])"
    and "pattern_accepted P (t_attrs (texteria_keystroke P st c))"
    and "t_reported (texteria_keystroke P st c) = t_reported st"
proof -
  let ?st' = "st\<lparr>ta_value := ta_value st @ [c]\<rparr>"
  have pa: "pattern_accepted P (t_attrs ?st')" using assms by simp
  note oi = texteria_on_input_accepted [OF pa]
  have k: "texteria_keystroke P st c = outcome_state (texteria_on_input P ?st')"
    using oi(1)
    by (cases "texteria_on_input P ?st'")
      (simp_all add: texteria_keystroke_def report_def outcome_state_def returns_def)
  show "t_events (texteria_keystroke P st c)
           = t_events st @ [texteria_input_event_for (ta_value st @ [c])]"
    using oi(2) by (simp add: k)
  show "t_value (texteria_keystroke P st c) = ta_value st @ [c]"
    using oi(3) by (simp add: k)
  show "ta_value (texteria_keystroke P st c) = ta_value st @ [c]"
    using oi(4) by (simp add: k)
  show "t_attrs (texteria_keystroke P st c) ''value'' = Some (ta_value st @ [c])"
    using oi(5) by (simp add: k)
  show "pattern_accepted P (t_attrs (texteria_keystroke P st c))"
    using oi(5) assms by (simp add: k pattern_accepted_def)
  show "t_reported (texteria_keystroke P st c) = t_reported st"
    using oi(7) by (simp add: k)
qed

lemma texteria_typing:
  assumes "pattern_accepted P (t_attrs st)"
  shows "t_events (texteria_type_string P s st)
           = t_events st @ map texteria_input_event_for (values_typed (ta_value st) s)
       \<and> ta_value (texteria_type_string P s st) = ta_value st @ s
       \<and> t_reported (texteria_type_string P s st) = t_reported st
       \<and> (s \<noteq> [] \<longrightarrow> t_value (texteria_type_string P s st) = ta_value st @ s
                    \<and> t_attrs (texteria_type_string P s st) ''value'' = Some (ta_value st @ s))"
  using assms
proof (induction s arbitrary: st)
  case Nil
  then show ?case by (simp add: texteria_type_string_def)
next
  case (Cons c s)
  let ?k = "texteria_keystroke P st c"
  note step = texteria_keystroke_step [OF Cons.prems, of c]
  have ts: "texteria_type_string P (c # s) st = texteria_type_string P s ?k"
    by (simp add: texteria_type_string_def)
  from Cons.IH [OF step(5)]
  show ?case
    unfolding ts using step(1,2,3,4,6) by (cases s) (auto simp: texteria_type_string_def)
qed

section \<open>Text widget: the counter stays current\<close>

lemma counter_severity_idem:
  "counter_severity v n (counter_severity v n cs) = counter_severity v n cs"
  by (auto simp: counter_severity_def)

lemma current_fixpoint: "counter_current st \<longleftrightarrow> updateCharCounter st = st"
proof
  assume "counter_current st"
  then show "updateCharCounter st = st"
    by (simp add: counter_current_def updateCharCounter_alt)
next
  assume e: "updateCharCounter st = st"
  have "counter_text (updateCharCounter st) = counter_shown (t_value st) (ta_maxLength st)"
    "counter_classes (updateCharCounter st)
       = counter_severity (t_value st) (ta_maxLength st) (counter_classes st)"
    by (simp_all add: updateCharCounter_alt)
  then show "counter_current st"
    unfolding e by (simp add: counter_current_def)
qed

lemma current_cong:
  assumes "counter_text a = counter_text b" and "counter_classes a = counter_classes b"
    and "t_value a = t_value b" and "ta_maxLength a = ta_maxLength b"
  shows "counter_current a = counter_current b"
  unfolding counter_current_def assms by (rule refl)

lemma current_after_counter [simp]: "counter_current (updateCharCounter st)"
  by (simp add: counter_current_def updateCharCounter_alt counter_severity_idem)

lemma current_kept [simp]:
  "counter_current (validation_update_ui ok m st) = counter_current st"
  "counter_current (autoResize_if_enabled P st) = counter_current st"
  "counter_current (autoResize P st) = counter_current st"
  "counter_current (updateAriaAttributes st) = counter_current st"
  "counter_current (updateLabel l st) = counter_current st"
  "counter_current (texteria_dispatch n st) = counter_current st"
  "counter_current (st\<lparr>t_reported := r\<rparr>) = counter_current st"
  "counter_current (st\<lparr>isUserTyping := b\<rparr>) = counter_current st"
  "counter_current (st\<lparr>t_attrs := a\<rparr>) = counter_current st"
  by (rule current_cong;
      simp add: step_alt autoResize_def updateLabel_def texteria_dispatch_def
        split: option.splits)+

lemma current_after_validation:
  "counter_current (outcome_state (updateValidation P st)) = counter_current st"
  by (simp add: updateValidation_def outcome_state_def split: sum.splits prod.splits)

lemma current_report:
  "counter_current (report r) = counter_current (outcome_state r)"
  by (cases r) (simp_all add: report_def outcome_state_def)

lemma outcome_and_then_Done:
  "outcome_state (and_then r (\<lambda>s. Done (f s)))
     = (case r of Done s \<Rightarrow> f s | Threw e s \<Rightarrow> s)"
  by (cases r) (simp_all add: and_then_def outcome_state_def)

lemma current_and_then:
  assumes "\<And>s. counter_current (f s) = counter_current s"
  shows "counter_current (outcome_state (and_then r (\<lambda>s. Done (f s))))
           = counter_current (outcome_state r)"
  using assms by (cases r) (simp_all add: and_then_def outcome_state_def)

lemma current_switch:
  assumes "counter_current st"
  shows "counter_current (outcome_state (texteria_attribute_switch P name new st))"
proof -
  have plain: "counter_current (outcome_state (Done (f st)))"
    if "counter_current (f st)" for f
    using that by (simp add: outcome_state_def)
  consider "name = ''value''" | "name = ''maxlength''" | "name = ''minlength''"
    | "name = ''required''" | "name = ''pattern''"
    | "name \<notin> {''value'', ''maxlength'', ''minlength'', ''required'', ''pattern''}"
    by blast
  then show ?thesis
  proof cases
    case 1
    show ?thesis
    proof (cases "isUserTyping st")
      case True
      with 1 assms show ?thesis
        by (simp add: texteria_attribute_switch_def outcome_state_def)
    next
      case False
      with 1 show ?thesis
        by (simp add: texteria_attribute_switch_def current_and_then current_after_validation)
    qed
  next
    case 2
    have m: "counter_current (updateCharCounter x)" for x by simp
    from 2 assms show ?thesis
      by (simp add: texteria_attribute_switch_def outcome_state_def
          split: option.splits sum.splits)
  next
    case 3
    have k: "counter_current (st\<lparr>ta_minLength := n\<rparr>) = counter_current st" for n
      by (rule current_cong) simp_all
    from 3 assms show ?thesis
      by (simp add: texteria_attribute_switch_def outcome_state_def k
          split: option.splits sum.splits)
  next
    case 4
    have k: "counter_current (st\<lparr>ta_required := n\<rparr>) = counter_current st" for n
      by (rule current_cong) simp_all
    from 4 assms show ?thesis
      by (simp add: texteria_attribute_switch_def current_after_validation k)
  next
    case 5
    from 5 assms show ?thesis
      by (simp add: texteria_attribute_switch_def current_after_validation)
  next
    case 6
    have k: "counter_current (st\<lparr>ta_placeholder := a\<rparr>) = counter_current st"
      "counter_current (st\<lparr>ta_disabled := b, container_classes := c\<rparr>) = counter_current st"
      "counter_current (st\<lparr>ta_rows := d\<rparr>) = counter_current st"
      "counter_current (st\<lparr>ta_cols := d\<rparr>) = counter_current st"
      "counter_current (st\<lparr>ta_name := e\<rparr>) = counter_current st"
      "counter_current (st\<lparr>counter_display := f\<rparr>) = counter_current st"
      for a b c d e f
      by (rule current_cong; simp)+
    from 6 assms show ?thesis
      by (simp add: texteria_attribute_switch_def outcome_state_def k split: option.splits)
  qed
qed

lemma current_callback:
  assumes "counter_current st"
  shows "counter_current (outcome_state (texteria_attributeChangedCallback P name old new st))"
proof (cases "old = new")
  case True
  with assms show ?thesis
    by (simp add: texteria_attributeChangedCallback_def outcome_state_def)
next
  case False
  then show ?thesis
    using current_switch [OF assms, of P name new]
    by (simp add: texteria_attributeChangedCallback_def current_and_then)
qed

lemma current_setAttribute:
  assumes "counter_current st"
  shows "counter_current (texteria_setAttribute P name v st)"
    and "counter_current (texteria_removeAttribute P name st)"
proof -
  have a: "counter_current (st\<lparr>t_attrs := x\<rparr>)" for x using assms by simp
  show "counter_current (texteria_setAttribute P name v st)"
    using a current_callback [OF a, of P name]
    by (simp add: texteria_setAttribute_def Let_def current_report)
  show "counter_current (texteria_removeAttribute P name st)"
    using assms a current_callback [OF a, of P name]
    by (simp add: texteria_removeAttribute_def Let_def current_report split: option.splits)
qed

lemma current_setValue: "counter_current (outcome_state (setValue P v st))"
  by (simp add: setValue_def Let_def current_and_then current_after_validation)

lemma current_connected: "counter_current (outcome_state (texteria_connectedCallback P st))"
proof -
  have "counter_current (updateAriaAttributes (autoResize_if_enabled P s)) = counter_current s" for s
    by simp
  then show ?thesis
    by (simp add: texteria_connectedCallback_def current_and_then [where f = "\<lambda>s. updateAriaAttributes (autoResize_if_enabled P s)"] current_after_validation)
qed

lemma current_keystroke: "counter_current (texteria_keystroke P st c)"
proof -
  have "counter_current ((texteria_dispatch n (autoResize_if_enabled P s))\<lparr>isUserTyping := False\<rparr>)
      = counter_current s" for n s
    by simp
  then have "counter_current (outcome_state (texteria_on_input P x))" for x
    by (simp add: texteria_on_input_def Let_def
        current_and_then [where f = "\<lambda>s. (texteria_dispatch ''texteria-input'' (autoResize_if_enabled P s))\<lparr>isUserTyping := False\<rparr>"]
        current_after_validation)
  then show ?thesis
    by (simp add: texteria_keystroke_def current_report)
qed

section \<open>Input: the value getter\<close>

text \<open>
  C10. The \<open>value\<close> getter of the input widget returns the text of the inner native input
  and the empty string when there is no inner input yet. So for every string \<open>v\<close>,
  setting the \<open>value\<close> property or attribute before the widget has rendered and then
  reading \<open>value\<close> gives the empty string, not \<open>v\<close>.
\<close>

theorem C10_value_getter:
  "input_get_value st = (case inputElement st of None \<Rightarrow> [] | Some ni \<Rightarrow> ni_value ni)
   \<and> (inputElement st = None \<longrightarrow>
        input_get_value (input_set_value nv v st) = []
        \<and> input_get_value (input_setAttribute nv ''value'' v st) = [])"
  by (simp add: input_get_value_def input_set_value_def input_setAttribute_def
      input_attributeChangedCallback_def updateInputState_def Let_def split: option.splits)

theorem C10_value_getter_witness:
  "inputElement (input_constructor True) = None
   \<and> input_get_value (input_set_value always_valid ''hello'' (input_constructor True)) = []"
  using C10_value_getter [of "input_constructor True" always_valid "''hello''"]
  by (simp add: input_constructor_def)

section \<open>Text widget: the typing guard\<close>

text \<open>
  C6. While \<open>isUserTyping\<close> is set, the callback for a change of the \<open>value\<close> attribute
  returns and leaves both \<open>_value\<close> and the text of the textarea as they are. The same
  holds for the \<open>setAttribute('value', \<dots>)\<close> that the input listener itself makes
  with the flag set: it does not assign the internal value again.
\<close>

theorem C6_typing_guard:
  assumes "isUserTyping st"
  shows "returns (texteria_attributeChangedCallback P ''value'' old new st)
     \<and> t_value (outcome_state (texteria_attributeChangedCallback P ''value'' old new st)) = t_value st
     \<and> ta_value (outcome_state (texteria_attributeChangedCallback P ''value'' old new st)) = ta_value st
     \<and> t_value (texteria_setAttribute P ''value'' v st) = t_value st
     \<and> ta_value (texteria_setAttribute P ''value'' v st) = ta_value st"
  using assms
  by (simp add: texteria_attributeChangedCallback_def texteria_attribute_switch_def and_then_def
      returns_def outcome_state_def updateAriaAttributes_def Let_def texteria_setAttribute_def
      texteria_observedAttributes_def report_def)

theorem C6_typing_guard_witness:
  "isUserTyping typing_state
   \<and> t_value (texteria_setAttribute sample_platform ''value'' ''zzz'' typing_state) = ''a''
   \<and> ta_value (texteria_setAttribute sample_platform ''value'' ''zzz'' typing_state) = ''a''"
proof -
  have h: "isUserTyping typing_state" by (simp add: typing_state_def)
  have "t_value typing_state = ''a''" "ta_value typing_state = ''a''"
    by (simp_all add: typing_state_def)
  then show ?thesis
    using C6_typing_guard [OF h, of sample_platform None "Some ''zzz''" "''zzz''"] h by simp
qed

section \<open>Text widget: the character counter\<close>

lemma typed_values:
  "t_value nine_of_ten = ''123456789''" "ta_maxLength nine_of_ten = 10"
  "t_value ten_of_ten = ''1234567890''" "ta_maxLength ten_of_ten = 10"
  "t_value five_of_ten = ''12345''" "ta_maxLength five_of_ten = 10"
  "t_value three_unbounded = ''abc''" "ta_maxLength three_unbounded = -1"
  by code_simp+

lemma typed_lengths:
  "length (t_value nine_of_ten) = 9" "length (t_value ten_of_ten) = 10"
  "length (t_value five_of_ten) = 5" "length (t_value three_unbounded) = 3"
  "ta_maxLength nine_of_ten = 10" "ta_maxLength ten_of_ten = 10"
  "ta_maxLength five_of_ten = 10" "ta_maxLength three_unbounded = -1"
  by (simp_all add: typed_values)

lemma shown_numbers:
  "show_nat 9 = ''9''" "show_nat 10 = ''10''" "show_nat 5 = ''5''" "show_nat 3 = ''3''"
  by code_simp+

text \<open>The counter of the typed widgets, as the keystrokes have left it.\<close>

lemma typed_counters:
  "counter_text nine_of_ten = ''9 / 10''" "counter_classes nine_of_ten = {''texteria-counter'', ''warning''}"
  "counter_text ten_of_ten = ''10 / 10''" "''error'' \<in> counter_classes ten_of_ten"
  "counter_text five_of_ten = ''5 / 10''" 
  "counter_text three_unbounded = ''3''"
  by code_simp+

lemma counter_after_update:
  "(0 < ta_maxLength st \<longrightarrow>
      counter_text (updateCharCounter st)
        = show_nat (length (t_value st)) @ '' / '' @ show_nat (nat (ta_maxLength st))
      \<and> (''error'' \<in> counter_classes (updateCharCounter st)
           \<longleftrightarrow> ta_maxLength st \<le> int (length (t_value st)))
      \<and> (''warning'' \<in> counter_classes (updateCharCounter st)
           \<longleftrightarrow> 9 * ta_maxLength st \<le> 10 * int (length (t_value st))
               \<and> int (length (t_value st)) < ta_maxLength st))
   \<and> (\<not> 0 < ta_maxLength st \<longrightarrow>
      counter_text (updateCharCounter st) = show_nat (length (t_value st)))"
proof (cases "0 < ta_maxLength st")
  case True
  define n :: rat where "n = of_nat (length (t_value st))"
  define m :: rat where "m = of_int (ta_maxLength st)"
  have m: "0 < m" using True by (simp add: m_def)
  have e: "(100 \<le> n / m * 100) = (ta_maxLength st \<le> int (length (t_value st)))"
  proof -
    have "(100 \<le> n / m * 100) = (m \<le> n)" using m by (simp add: field_simps)
    also have "\<dots> = (ta_maxLength st \<le> int (length (t_value st)))"
      unfolding n_def m_def by (metis of_int_le_iff of_int_of_nat_eq)
    finally show ?thesis .
  qed
  have w: "(90 \<le> n / m * 100) = (9 * ta_maxLength st \<le> 10 * int (length (t_value st)))"
  proof -
    have "(90 \<le> n / m * 100) = (9 * m \<le> 10 * n)" using m by (simp add: field_simps)
    also have "\<dots> = (of_int (9 * ta_maxLength st) \<le> (of_int (10 * int (length (t_value st))) :: rat))"
      unfolding n_def m_def by simp
    also have "\<dots> = (9 * ta_maxLength st \<le> 10 * int (length (t_value st)))"
      by (rule of_int_le_iff)
    finally show ?thesis .
  qed
  show ?thesis
    using True e w
    by (auto simp: updateCharCounter_def Let_def n_def m_def)
next
  case False
  then show ?thesis by (simp add: updateCharCounter_def Let_def)
qed

text \<open>
  C8. With a positive \<open>maxLength\<close>, \<open>updateCharCounter\<close> shows \<open>current / max\<close>, puts
  \<open>error\<close> on the counter exactly when the length has reached the maximum, \<open>warning\<close>
  exactly when it is at least nine tenths of the maximum and below it, and neither class
  otherwise. Without a positive \<open>maxLength\<close> the counter shows the bare length. The
  counter is current (\<open>updateCharCounter\<close> would change nothing) after the widget has been
  connected, after \<open>setValue\<close> and after every keystroke, and it stays current when an
  attribute is set or removed.
\<close>

theorem C8_char_counter:
  "(0 < ta_maxLength st \<longrightarrow>
      counter_text (updateCharCounter st)
        = show_nat (length (t_value st)) @ '' / '' @ show_nat (nat (ta_maxLength st))
      \<and> (''error'' \<in> counter_classes (updateCharCounter st)
           \<longleftrightarrow> ta_maxLength st \<le> int (length (t_value st)))
      \<and> (''warning'' \<in> counter_classes (updateCharCounter st)
           \<longleftrightarrow> 9 * ta_maxLength st \<le> 10 * int (length (t_value st))
               \<and> int (length (t_value st)) < ta_maxLength st))
   \<and> (\<not> 0 < ta_maxLength st \<longrightarrow>
      counter_text (updateCharCounter st) = show_nat (length (t_value st)))
   \<and> (counter_current st \<longleftrightarrow> updateCharCounter st = st)
   \<and> counter_current (outcome_state (texteria_connectedCallback P st))
   \<and> counter_current (outcome_state (setValue P v st))
   \<and> counter_current (texteria_keystroke P st c)
   \<and> (counter_current st \<longrightarrow>
        counter_current (texteria_setAttribute P name v st)
        \<and> counter_current (texteria_removeAttribute P name st))"
proof -
  note upd = counter_after_update [of st]
  have a: "0 < ta_maxLength st \<longrightarrow>
      counter_text (updateCharCounter st)
        = show_nat (length (t_value st)) @ '' / '' @ show_nat (nat (ta_maxLength st))
      \<and> (''error'' \<in> counter_classes (updateCharCounter st)
           \<longleftrightarrow> ta_maxLength st \<le> int (length (t_value st)))
      \<and> (''warning'' \<in> counter_classes (updateCharCounter st)
           \<longleftrightarrow> 9 * ta_maxLength st \<le> 10 * int (length (t_value st))
               \<and> int (length (t_value st)) < ta_maxLength st)"
    using upd by (rule conjunct1)
  have b: "\<not> 0 < ta_maxLength st \<longrightarrow>
      counter_text (updateCharCounter st) = show_nat (length (t_value st))"
    using upd by (rule conjunct2)
  have i: "counter_current st \<longrightarrow>
        counter_current (texteria_setAttribute P name v st)
        \<and> counter_current (texteria_removeAttribute P name st)"
    using current_setAttribute by blast
  show ?thesis
    by (intro conjI a b i current_fixpoint current_connected current_setValue current_keystroke)
qed

theorem C8_char_counter_witness:
  "0 < ta_maxLength nine_of_ten
   \<and> counter_text (updateCharCounter nine_of_ten) = ''9 / 10''
   \<and> ''warning'' \<in> counter_classes (updateCharCounter nine_of_ten)
   \<and> ''error'' \<notin> counter_classes (updateCharCounter nine_of_ten)
   \<and> counter_text (updateCharCounter ten_of_ten) = ''10 / 10''
   \<and> ''error'' \<in> counter_classes (updateCharCounter ten_of_ten)
   \<and> ''warning'' \<notin> counter_classes (updateCharCounter ten_of_ten)
   \<and> counter_text (updateCharCounter five_of_ten) = ''5 / 10''
   \<and> ''error'' \<notin> counter_classes (updateCharCounter five_of_ten)
   \<and> ''warning'' \<notin> counter_classes (updateCharCounter five_of_ten)
   \<and> \<not> 0 < ta_maxLength three_unbounded
   \<and> counter_text (updateCharCounter three_unbounded) = ''3''
   \<and> counter_current nine_of_ten
   \<and> updateCharCounter nine_of_ten = nine_of_ten
   \<and> counter_current (texteria_setAttribute sample_platform ''maxlength'' ''20'' nine_of_ten)"
proof -
  have cur: "counter_current nine_of_ten"
    unfolding nine_of_ten_def texteria_type_string_def
    using C8_char_counter [where P = sample_platform and c = "CHR ''9''"
        and st = "foldl (texteria_keystroke sample_platform) ten_max ''12345678''"]
    by simp
  have examples: "0 < ta_maxLength nine_of_ten
   \<and> counter_text (updateCharCounter nine_of_ten) = ''9 / 10''
   \<and> ''warning'' \<in> counter_classes (updateCharCounter nine_of_ten)
   \<and> ''error'' \<notin> counter_classes (updateCharCounter nine_of_ten)
   \<and> counter_text (updateCharCounter ten_of_ten) = ''10 / 10''
   \<and> ''error'' \<in> counter_classes (updateCharCounter ten_of_ten)
   \<and> ''warning'' \<notin> counter_classes (updateCharCounter ten_of_ten)
   \<and> counter_text (updateCharCounter five_of_ten) = ''5 / 10''
   \<and> ''error'' \<notin> counter_classes (updateCharCounter five_of_ten)
   \<and> ''warning'' \<notin> counter_classes (updateCharCounter five_of_ten)
   \<and> \<not> 0 < ta_maxLength three_unbounded
   \<and> counter_text (updateCharCounter three_unbounded) = ''3''"
    using C8_char_counter [of nine_of_ten] C8_char_counter [of ten_of_ten]
      C8_char_counter [of five_of_ten] C8_char_counter [of three_unbounded]
    by (simp add: typed_lengths shown_numbers)
  have settled: "updateCharCounter nine_of_ten = nine_of_ten"
    using C8_char_counter [of nine_of_ten] cur by blast
  have kept: "counter_current (texteria_setAttribute sample_platform ''maxlength'' ''20'' nine_of_ten)"
    using C8_char_counter [where st = nine_of_ten and P = sample_platform
        and name = "''maxlength''" and v = "''20''"] cur by blast
  from examples cur settled kept show ?thesis by blast
qed

section \<open>Suppression while disabled or loading\<close>

lemma disabled_widgets:
  "b_attrs disabled_button ''disabled'' = Some []"
  "b_attrs disabled_button ''loading'' = None"
  "map_option nb_click_listener (b_button disabled_button) = Some True"
  "b_events disabled_button = []"
  "inputElement disabled_input \<noteq> None"
  "labelElement disabled_input \<noteq> None"
  "i_attrs disabled_input ''disabled'' = Some []"
  "i_events disabled_input = []"
  "t_attrs disabled_texteria ''disabled'' = Some []"
  "ta_disabled disabled_texteria"
  "t_events disabled_texteria = []"
  "t_attrs disabled_texteria ''pattern'' = None"
  by code_simp+

text \<open>
  C1, as the code has it. In the button, \<open>handleClick\<close> first checks \<open>disabled\<close> and
  \<open>loading\<close>; when either is present it prevents the default, stops the propagation and
  returns, with no event dispatched and nothing else changed. The input and the text
  widget have no such check in their handlers: they copy the presence of \<open>disabled\<close> to
  the \<open>disabled\<close> property of the inner native control (in \<open>updateInputState\<close>, and in
  the \<open>disabled\<close> branch of the text widget's attribute callback). \<open>handleInput\<close>,
  whenever it runs, writes the \<open>value\<close> attribute and dispatches one \<open>input\<close> event,
  and so does the input listener of the text widget when the pattern is accepted.
\<close>

theorem C1_suppression:
  "(b_attrs b ''disabled'' \<noteq> None \<or> b_attrs b ''loading'' \<noteq> None \<longrightarrow>
      handleClick ev b = (ev\<lparr>defaultPrevented := True, propagationStopped := True\<rparr>, b))
   \<and> (inputElement i \<noteq> None \<and> labelElement i \<noteq> None \<longrightarrow>
        map_option ni_disabled (inputElement (updateInputState nv i))
          = Some (i_attrs i ''disabled'' \<noteq> None))
   \<and> (old \<noteq> new \<longrightarrow>
        returns (texteria_attributeChangedCallback P ''disabled'' old new t)
        \<and> ta_disabled (outcome_state (texteria_attributeChangedCallback P ''disabled'' old new t))
            = (new \<noteq> None))
   \<and> i_events (handleInput nv iev i)
        = i_events i @
          [\<lparr>ev_name = ''input'', ev_bubbles = True, ev_composed = True,
            ev_detail = [(''value'', DStr (target_value iev)),
                         (''inputType'', DStr (inputType iev))]\<rparr>]
   \<and> i_attrs (handleInput nv iev i) ''value'' = Some (target_value iev)
   \<and> (pattern_accepted P (t_attrs t) \<longrightarrow>
        returns (texteria_on_input P t)
        \<and> t_events (outcome_state (texteria_on_input P t))
            = t_events t @ [texteria_input_event_for (ta_value t)]
        \<and> t_value (outcome_state (texteria_on_input P t)) = ta_value t
        \<and> t_attrs (outcome_state (texteria_on_input P t)) ''value'' = Some (ta_value t))"
proof -
  have 1: "b_attrs b ''disabled'' \<noteq> None \<or> b_attrs b ''loading'' \<noteq> None \<longrightarrow>
      handleClick ev b = (ev\<lparr>defaultPrevented := True, propagationStopped := True\<rparr>, b)"
    by (simp add: handleClick_def)
  have 2: "inputElement i \<noteq> None \<and> labelElement i \<noteq> None \<longrightarrow>
        map_option ni_disabled (inputElement (updateInputState nv i))
          = Some (i_attrs i ''disabled'' \<noteq> None)"
    by (auto simp: updateInputState_def Let_def split: option.splits)
  have 3: "old \<noteq> new \<longrightarrow>
        returns (texteria_attributeChangedCallback P ''disabled'' old new t)
        \<and> ta_disabled (outcome_state (texteria_attributeChangedCallback P ''disabled'' old new t))
            = (new \<noteq> None)"
    by (simp add: texteria_attributeChangedCallback_def texteria_attribute_switch_def
        and_then_def returns_def outcome_state_def updateAriaAttributes_alt)
  have 4: "i_events (handleInput nv iev i)
        = i_events i @
          [\<lparr>ev_name = ''input'', ev_bubbles = True, ev_composed = True,
            ev_detail = [(''value'', DStr (target_value iev)),
                         (''inputType'', DStr (inputType iev))]\<rparr>]"
    by (simp add: handleInput_def input_dispatch_def setFormValue_def input_setAttribute_def
        input_attributeChangedCallback_def input_observedAttributes_def Let_def
        updateInputState_keeps split: option.splits)
  have 5: "i_attrs (handleInput nv iev i) ''value'' = Some (target_value iev)"
    by (simp add: handleInput_def input_dispatch_def setFormValue_def input_setAttribute_def
        input_attributeChangedCallback_def input_observedAttributes_def Let_def
        updateInputState_keeps split: option.splits)
  have 6: "pattern_accepted P (t_attrs t) \<longrightarrow>
        returns (texteria_on_input P t)
        \<and> t_events (outcome_state (texteria_on_input P t))
            = t_events t @ [texteria_input_event_for (ta_value t)]
        \<and> t_value (outcome_state (texteria_on_input P t)) = ta_value t
        \<and> t_attrs (outcome_state (texteria_on_input P t)) ''value'' = Some (ta_value t)"
    using texteria_on_input_accepted(1,2,3,5) [of P t] by simp
  show ?thesis
    by (intro conjI 1 2 3 4 5 6)
qed

theorem C1_suppression_witness:
  "b_attrs disabled_button ''disabled'' \<noteq> None
   \<and> handleClick (fresh_event [] []) disabled_button
       = ((fresh_event [] [])\<lparr>defaultPrevented := True, propagationStopped := True\<rparr>,
          disabled_button)
   \<and> inputElement disabled_input \<noteq> None \<and> labelElement disabled_input \<noteq> None
   \<and> map_option ni_disabled (inputElement (updateInputState always_valid disabled_input))
       = Some True
   \<and> None \<noteq> Some ''''
   \<and> ta_disabled (outcome_state
        (texteria_attributeChangedCallback sample_platform ''disabled'' None (Some '''')
           disabled_texteria))
   \<and> pattern_accepted sample_platform (t_attrs disabled_texteria)
   \<and> t_events (outcome_state (texteria_on_input sample_platform disabled_texteria))
       = [texteria_input_event_for []]"
proof -
  have pa: "pattern_accepted sample_platform (t_attrs disabled_texteria)"
    by (simp add: pattern_accepted_def disabled_widgets)
  have tv: "ta_value disabled_texteria = []" by code_simp
  note T = C1_suppression [where b = disabled_button and ev = "fresh_event [] []"
      and i = disabled_input and nv = always_valid and old = None and new = "Some ''''"
      and P = sample_platform and t = disabled_texteria]
  have a: "handleClick (fresh_event [] []) disabled_button
       = ((fresh_event [] [])\<lparr>defaultPrevented := True, propagationStopped := True\<rparr>,
          disabled_button)"
    using T by (simp add: disabled_widgets)
  have b: "map_option ni_disabled (inputElement (updateInputState always_valid disabled_input))
       = Some True"
    using T by (simp add: disabled_widgets)
  have c: "ta_disabled (outcome_state
        (texteria_attributeChangedCallback sample_platform ''disabled'' None (Some '''')
           disabled_texteria))"
    using T by simp
  have d: "t_events (outcome_state (texteria_on_input sample_platform disabled_texteria))
       = [texteria_input_event_for []]"
    using T pa by (simp add: disabled_widgets tv)
  from a b c d pa show ?thesis by (simp add: disabled_widgets)
qed

text \<open>
  C1 as stated fails for the two editable widgets: with \<open>disabled\<close> present, their
  input handlers still change the value and dispatch the event.
\<close>

theorem C1_counterexample:
  "i_attrs disabled_input ''disabled'' \<noteq> None
   \<and> i_events disabled_input = []
   \<and> i_events (handleInput always_valid (fresh_event ''a'' ''insertText'') disabled_input)
       = [\<lparr>ev_name = ''input'', ev_bubbles = True, ev_composed = True,
           ev_detail = [(''value'', DStr ''a''), (''inputType'', DStr ''insertText'')]\<rparr>]
   \<and> i_attrs disabled_input ''value'' = None
   \<and> i_attrs (handleInput always_valid (fresh_event ''a'' ''insertText'') disabled_input) ''value''
       = Some ''a''
   \<and> t_attrs disabled_texteria ''disabled'' \<noteq> None
   \<and> returns (texteria_on_input sample_platform (disabled_texteria\<lparr>ta_value := ''a''\<rparr>))
   \<and> t_events (outcome_state
        (texteria_on_input sample_platform (disabled_texteria\<lparr>ta_value := ''a''\<rparr>)))
       = [\<lparr>ev_name = ''texteria-input'', ev_bubbles = True, ev_composed = True,
           ev_detail = [(''value'', DStr ''a''), (''characterCount'', DNum 1)]\<rparr>]
   \<and> t_value disabled_texteria = []
   \<and> t_value (outcome_state
        (texteria_on_input sample_platform (disabled_texteria\<lparr>ta_value := ''a''\<rparr>))) = ''a''"
  by code_simp

section \<open>Attribute callbacks with an unchanged value\<close>

text \<open>
  C4, as the code has it. In the button, the input and the text widget, the attribute
  callback with equal old and new value returns at once and the widget is unchanged. The
  container's callback has no such guard and runs \<open>sync\<close> every time; on a container that
  has been synchronised it writes the values that are already there, so its attributes and
  styles stay as they are.
\<close>

theorem C4_unchanged_attribute:
  "button_attributeChangedCallback name v v b = b
   \<and> input_attributeChangedCallback nv name v v i = i
   \<and> texteria_attributeChangedCallback P name v v t = Done t
   \<and> c_style (container_attributeChangedCallback name v v (sync c)) = c_style (sync c)
   \<and> c_attrs (container_attributeChangedCallback name v v (sync c)) = c_attrs (sync c)"
  using sync_idem [of c]
  by (simp add: button_attributeChangedCallback_def input_attributeChangedCallback_def
      texteria_attributeChangedCallback_def container_attributeChangedCallback_def)

text \<open>
  C4 as stated fails for the container: with equal old and new value its callback still
  does the seven style writes of a synchronisation.
\<close>

theorem C4_counterexample:
  "c_attrs gap_eight ''gap'' = Some ''8''
   \<and> c_writes (container_attributeChangedCallback ''gap'' (Some ''8'') (Some ''8'') gap_eight)
       = c_writes gap_eight @
         [RemoveProperty ''--grid-template-columns'', SetProperty ''--gap'' ''8px'',
          SetProperty ''--padding'' ''0'', RemoveProperty ''--margin'',
          RemoveProperty ''--width'', RemoveProperty ''--height'',
          RemoveProperty ''--max-width'']
   \<and> container_attributeChangedCallback ''gap'' (Some ''8'') (Some ''8'') gap_eight \<noteq> gap_eight"
proof -
  have a: "c_attrs gap_eight ''gap'' = Some ''8''" by code_simp
  have w: "c_writes (container_attributeChangedCallback ''gap'' (Some ''8'') (Some ''8'') gap_eight)
       = c_writes gap_eight @
         [RemoveProperty ''--grid-template-columns'', SetProperty ''--gap'' ''8px'',
          SetProperty ''--padding'' ''0'', RemoveProperty ''--margin'',
          RemoveProperty ''--width'', RemoveProperty ''--height'',
          RemoveProperty ''--max-width'']"
    by code_simp
  have "container_attributeChangedCallback ''gap'' (Some ''8'') (Some ''8'') gap_eight \<noteq> gap_eight"
  proof
    assume "container_attributeChangedCallback ''gap'' (Some ''8'') (Some ''8'') gap_eight = gap_eight"
    then have "c_writes (container_attributeChangedCallback ''gap'' (Some ''8'') (Some ''8'') gap_eight)
        = c_writes gap_eight" by simp
    with w show False by simp
  qed
  with a w show ?thesis by simp
qed

section \<open>Public methods\<close>









section \<open>Text widget: validity\<close>

lemma rule_widgets:
  "ta_required required_blank" "trim (t_value required_blank) = []"
  "t_attrs required_blank ''validation-message'' = None"
  "\<not> ta_required short_text" "ta_minLength short_text = 5" "t_value short_text = ''abc''"
  "t_attrs short_text ''validation-message'' = None"
  "\<not> ta_required letters_for_digits" "ta_minLength letters_for_digits = -1"
  "t_value letters_for_digits = ''abc''"
  "t_attrs letters_for_digits ''pattern'' = Some ''^[0-9]+$''"
  "t_attrs letters_for_digits ''validation-message'' = None"
  "\<not> all_digits ''abc''"
  "\<not> ta_required digits_for_digits" "ta_minLength digits_for_digits = -1"
  "t_value digits_for_digits = ''123''"
  "t_attrs digits_for_digits ''pattern'' = Some ''^[0-9]+$''"
  "all_digits ''123''"
  "\<not> isUserTyping texteria_constructor"
  "show_nat 5 = ''5''"
  by code_simp+

lemma sample_regexp_values:
  "regexp sample_platform ''^[0-9]+$'' = Some all_digits"
  "regexp sample_platform ''('' = None"
  by (simp_all add: sample_platform_def sample_regexp_def)

text \<open>
  C2, as the code has it. \<open>updateValidation\<close> applies three rules in the order required,
  minimum length, pattern, and the first that fails decides: \<open>required\<close> with a value that
  is empty or only white space; otherwise a positive minimum length with a non-empty
  shorter value; otherwise a non-empty pattern, accepted by the regular-expression engine,
  that a non-empty value does not match. Each failure makes the widget invalid with its
  message, which is the \<open>validation-message\<close> attribute when that is set and non-empty and
  the rule's own text otherwise; when no rule fails the widget is valid with no message.
  The callbacks for a change of \<open>required\<close>, of \<open>pattern\<close>, and of \<open>value\<close> outside a
  keystroke run \<open>updateValidation\<close> on the changed widget.
\<close>

theorem C2_validation_priority:
  "(let r = updateValidation P t;
        custom = t_attrs t ''validation-message'';
        required_fails = (ta_required t \<and> trim (t_value t) = []);
        length_fails = (0 < ta_minLength t \<and> t_value t \<noteq> []
                          \<and> int (length (t_value t)) < ta_minLength t)
    in (required_fails \<longrightarrow>
          returns r \<and> \<not> isValid (outcome_state r)
          \<and> vm_text (outcome_state r) = or_default custom ''This field is required'')
     \<and> (\<not> required_fails \<and> length_fails \<longrightarrow>
          returns r \<and> \<not> isValid (outcome_state r)
          \<and> vm_text (outcome_state r)
              = or_default custom
                  (''Minimum '' @ show_nat (nat (ta_minLength t)) @ '' characters required''))
     \<and> (\<not> required_fails \<and> \<not> length_fails \<and> t_attrs t ''pattern'' = Some p \<and> p \<noteq> []
          \<and> t_value t \<noteq> [] \<and> regexp P p = Some test \<and> \<not> test (t_value t) \<longrightarrow>
          returns r \<and> \<not> isValid (outcome_state r)
          \<and> vm_text (outcome_state r) = or_default custom ''Please match the required format'')
     \<and> (\<not> required_fails \<and> \<not> length_fails
          \<and> (t_attrs t ''pattern'' = None \<or> t_attrs t ''pattern'' = Some [] \<or> t_value t = []
               \<or> (t_attrs t ''pattern'' = Some p \<and> regexp P p = Some test \<and> test (t_value t)))
          \<longrightarrow> returns r \<and> isValid (outcome_state r) \<and> vm_text (outcome_state r) = []))
   \<and> (old \<noteq> new \<longrightarrow>
        texteria_attributeChangedCallback P ''required'' old new t
          = and_then (updateValidation P (t\<lparr>ta_required := (new \<noteq> None)\<rparr>))
              (\<lambda>s. Done (updateAriaAttributes s))
        \<and> texteria_attributeChangedCallback P ''pattern'' old new t
          = and_then (updateValidation P t) (\<lambda>s. Done (updateAriaAttributes s)))
   \<and> (old \<noteq> new \<and> \<not> isUserTyping t \<longrightarrow>
        texteria_attributeChangedCallback P ''value'' old new t
          = and_then (updateValidation P
                        (updateCharCounter
                           (t\<lparr>t_value := or_default new [], ta_value := or_default new []\<rparr>)))
              (\<lambda>s. Done (updateAriaAttributes (autoResize_if_enabled P s))))"
proof -
  let ?r = "updateValidation P t"
  let ?custom = "t_attrs t ''validation-message''"
  let ?rf = "ta_required t \<and> trim (t_value t) = []"
  let ?lf = "0 < ta_minLength t \<and> t_value t \<noteq> [] \<and> int (length (t_value t)) < ta_minLength t"
  have 1: "?rf \<longrightarrow> returns ?r \<and> \<not> isValid (outcome_state ?r)
          \<and> vm_text (outcome_state ?r) = or_default ?custom ''This field is required''"
    using verdict_outcome [OF rule_required, of t P] by blast
  have 2: "\<not> ?rf \<and> ?lf \<longrightarrow> returns ?r \<and> \<not> isValid (outcome_state ?r)
          \<and> vm_text (outcome_state ?r)
              = or_default ?custom
                  (''Minimum '' @ show_nat (nat (ta_minLength t)) @ '' characters required'')"
    using verdict_outcome [OF rule_minlength, of t P] by blast
  have 3: "\<not> ?rf \<and> \<not> ?lf \<and> t_attrs t ''pattern'' = Some p \<and> p \<noteq> []
          \<and> t_value t \<noteq> [] \<and> regexp P p = Some test \<and> \<not> test (t_value t) \<longrightarrow>
          returns ?r \<and> \<not> isValid (outcome_state ?r)
          \<and> vm_text (outcome_state ?r) = or_default ?custom ''Please match the required format''"
    using verdict_outcome [OF rule_pattern, of t p P test] by blast
  have 4: "\<not> ?rf \<and> \<not> ?lf
          \<and> (t_attrs t ''pattern'' = None \<or> t_attrs t ''pattern'' = Some [] \<or> t_value t = []
               \<or> (t_attrs t ''pattern'' = Some p \<and> regexp P p = Some test \<and> test (t_value t)))
          \<longrightarrow> returns ?r \<and> isValid (outcome_state ?r) \<and> vm_text (outcome_state ?r) = []"
    using verdict_outcome [OF rule_valid, of t p P test] by blast
  have 5: "old \<noteq> new \<longrightarrow>
        texteria_attributeChangedCallback P ''required'' old new t
          = and_then (updateValidation P (t\<lparr>ta_required := (new \<noteq> None)\<rparr>))
              (\<lambda>s. Done (updateAriaAttributes s))
        \<and> texteria_attributeChangedCallback P ''pattern'' old new t
          = and_then (updateValidation P t) (\<lambda>s. Done (updateAriaAttributes s))"
    using validation_callbacks(1,2) by blast
  have 6: "old \<noteq> new \<and> \<not> isUserTyping t \<longrightarrow>
        texteria_attributeChangedCallback P ''value'' old new t
          = and_then (updateValidation P
                        (updateCharCounter
                           (t\<lparr>t_value := or_default new [], ta_value := or_default new []\<rparr>)))
              (\<lambda>s. Done (updateAriaAttributes (autoResize_if_enabled P s)))"
    using validation_callbacks(3) by blast
  from 1 2 3 4 have rules: "(?rf \<longrightarrow> returns ?r \<and> \<not> isValid (outcome_state ?r)
          \<and> vm_text (outcome_state ?r) = or_default ?custom ''This field is required'')
     \<and> (\<not> ?rf \<and> ?lf \<longrightarrow> returns ?r \<and> \<not> isValid (outcome_state ?r)
          \<and> vm_text (outcome_state ?r)
              = or_default ?custom
                  (''Minimum '' @ show_nat (nat (ta_minLength t)) @ '' characters required''))
     \<and> (\<not> ?rf \<and> \<not> ?lf \<and> t_attrs t ''pattern'' = Some p \<and> p \<noteq> []
          \<and> t_value t \<noteq> [] \<and> regexp P p = Some test \<and> \<not> test (t_value t) \<longrightarrow>
          returns ?r \<and> \<not> isValid (outcome_state ?r)
          \<and> vm_text (outcome_state ?r) = or_default ?custom ''Please match the required format'')
     \<and> (\<not> ?rf \<and> \<not> ?lf
          \<and> (t_attrs t ''pattern'' = None \<or> t_attrs t ''pattern'' = Some [] \<or> t_value t = []
               \<or> (t_attrs t ''pattern'' = Some p \<and> regexp P p = Some test \<and> test (t_value t)))
          \<longrightarrow> returns ?r \<and> isValid (outcome_state ?r) \<and> vm_text (outcome_state ?r) = [])"
    by (intro conjI)
  show ?thesis
    unfolding Let_def by (rule conjI [OF rules conjI [OF 5 6]])
qed

theorem C2_validation_priority_witness:
  "(ta_required required_blank \<and> trim (t_value required_blank) = [])
   \<and> \<not> isValid (outcome_state (updateValidation sample_platform required_blank))
   \<and> vm_text (outcome_state (updateValidation sample_platform required_blank))
       = ''This field is required''
   \<and> \<not> (ta_required short_text \<and> trim (t_value short_text) = [])
   \<and> (0 < ta_minLength short_text \<and> t_value short_text \<noteq> []
        \<and> int (length (t_value short_text)) < ta_minLength short_text)
   \<and> \<not> isValid (outcome_state (updateValidation sample_platform short_text))
   \<and> vm_text (outcome_state (updateValidation sample_platform short_text))
       = ''Minimum 5 characters required''
   \<and> \<not> (ta_required letters_for_digits \<and> trim (t_value letters_for_digits) = [])
   \<and> \<not> (0 < ta_minLength letters_for_digits \<and> t_value letters_for_digits \<noteq> []
          \<and> int (length (t_value letters_for_digits)) < ta_minLength letters_for_digits)
   \<and> t_attrs letters_for_digits ''pattern'' = Some ''^[0-9]+$''
   \<and> regexp sample_platform ''^[0-9]+$'' = Some all_digits
   \<and> \<not> all_digits (t_value letters_for_digits)
   \<and> \<not> isValid (outcome_state (updateValidation sample_platform letters_for_digits))
   \<and> vm_text (outcome_state (updateValidation sample_platform letters_for_digits))
       = ''Please match the required format''
   \<and> t_attrs digits_for_digits ''pattern'' = Some ''^[0-9]+$''
   \<and> all_digits (t_value digits_for_digits)
   \<and> isValid (outcome_state (updateValidation sample_platform digits_for_digits))
   \<and> vm_text (outcome_state (updateValidation sample_platform digits_for_digits)) = []
   \<and> None \<noteq> Some ''''
   \<and> \<not> isUserTyping texteria_constructor
   \<and> texteria_attributeChangedCallback sample_platform ''required'' None (Some '''')
        texteria_constructor
       = and_then (updateValidation sample_platform (texteria_constructor\<lparr>ta_required := True\<rparr>))
           (\<lambda>s. Done (updateAriaAttributes s))"
proof -
  have od: "or_default None d = d" for d by (simp add: or_default_def)
  note T = C2_validation_priority [unfolded Let_def]
  note A = T [where t = required_blank and P = sample_platform and p = "''^[0-9]+$''"
      and test = all_digits and old = None and new = "Some ''''"]
  note B = T [where t = short_text and P = sample_platform and p = "''^[0-9]+$''"
      and test = all_digits and old = None and new = "Some ''''"]
  note C = T [where t = letters_for_digits and P = sample_platform and p = "''^[0-9]+$''"
      and test = all_digits and old = None and new = "Some ''''"]
  note D = T [where t = digits_for_digits and P = sample_platform and p = "''^[0-9]+$''"
      and test = all_digits and old = None and new = "Some ''''"]
  note E = T [where t = texteria_constructor and P = sample_platform and p = "''^[0-9]+$''"
      and test = all_digits and old = None and new = "Some ''''"]
  have a: "\<not> isValid (outcome_state (updateValidation sample_platform required_blank))
     \<and> vm_text (outcome_state (updateValidation sample_platform required_blank))
         = ''This field is required''"
    using A by (simp add: rule_widgets od)
  have b: "\<not> isValid (outcome_state (updateValidation sample_platform short_text))
     \<and> vm_text (outcome_state (updateValidation sample_platform short_text))
         = ''Minimum 5 characters required''"
    using B by (simp add: rule_widgets od)
  have c: "\<not> isValid (outcome_state (updateValidation sample_platform letters_for_digits))
     \<and> vm_text (outcome_state (updateValidation sample_platform letters_for_digits))
         = ''Please match the required format''"
    using C by (simp add: rule_widgets od sample_regexp_values)
  have d: "isValid (outcome_state (updateValidation sample_platform digits_for_digits))
     \<and> vm_text (outcome_state (updateValidation sample_platform digits_for_digits)) = []"
    using D by (simp add: rule_widgets od sample_regexp_values)
  have e: "texteria_attributeChangedCallback sample_platform ''required'' None (Some '''')
        texteria_constructor
       = and_then (updateValidation sample_platform (texteria_constructor\<lparr>ta_required := True\<rparr>))
           (\<lambda>s. Done (updateAriaAttributes s))"
    using E by simp
  show ?thesis
    using a b c d e by (simp add: rule_widgets sample_regexp_values)
qed

text \<open>
  C2 as stated fails in two places. A required widget holding two spaces is invalid with
  the required message, although its value is not empty and no other rule applies. And
  after the value \<open>abc\<close> a change of \<open>minlength\<close> to 5 leaves the widget valid: the
  \<open>minlength\<close> branch of the callback does not run \<open>updateValidation\<close>.
\<close>

theorem C2_counterexample:
  "ta_required required_blank \<and> t_value required_blank = ''  ''
   \<and> ta_minLength required_blank = -1 \<and> t_attrs required_blank ''pattern'' = None
   \<and> claimed_validity True (-1) None ''  '' = (True, [])
   \<and> returns (updateValidation sample_platform required_blank)
   \<and> \<not> isValid (outcome_state (updateValidation sample_platform required_blank))
   \<and> vm_text (outcome_state (updateValidation sample_platform required_blank))
       = ''This field is required''
   \<and> \<not> ta_required minlength_afterwards \<and> t_value minlength_afterwards = ''abc''
   \<and> ta_minLength minlength_afterwards = 5 \<and> t_attrs minlength_afterwards ''pattern'' = None
   \<and> claimed_validity False 5 None ''abc'' = (False, ''Minimum 5 characters required'')
   \<and> isValid minlength_afterwards \<and> vm_text minlength_afterwards = []"
  by code_simp

section \<open>Text widget: malformed configuration\<close>

text \<open>
  C7. The claim is that a malformed \<open>rows\<close>, \<open>cols\<close> or \<open>pattern\<close> never faults and that
  an invalid input shows only in the validity state. With the pattern \<open>(\<close>, which the
  engine rejects, \<open>updateValidation\<close> throws a \<open>SyntaxError\<close> as soon as the value is not
  empty: \<open>setValue('a')\<close> throws, and the widget still counts as valid. For \<open>rows\<close> and
  \<open>cols\<close> the defaults 3 and 50 replace an absent or empty value only; for \<open>abc\<close> the
  number assigned to the native property is \<open>NaN\<close>.
\<close>

theorem C7_invalid_pattern_throws:
  "t_attrs bad_pattern ''pattern'' = Some ''(''
   \<and> regexp sample_platform ''('' = None
   \<and> updateValidation sample_platform (bad_pattern\<lparr>t_value := ''a''\<rparr>)
       = Threw SyntaxError (bad_pattern\<lparr>t_value := ''a''\<rparr>)
   \<and> \<not> returns (setValue sample_platform ''a'' bad_pattern)
   \<and> t_reported (outcome_state (setValue sample_platform ''a'' bad_pattern)) = [SyntaxError]
   \<and> isValid (outcome_state (setValue sample_platform ''a'' bad_pattern))
   \<and> ta_rows (texteria_setAttribute sample_platform ''rows'' ''abc'' texteria_constructor) = NaN
   \<and> ta_cols (texteria_setAttribute sample_platform ''cols'' ''abc'' texteria_constructor) = NaN
   \<and> ta_rows (texteria_setAttribute sample_platform ''rows'' [] texteria_constructor) = Num 3
   \<and> ta_cols (texteria_setAttribute sample_platform ''cols'' [] texteria_constructor) = Num 50"
proof -
  have p: "t_attrs bad_pattern ''pattern'' = Some ''(''" by code_simp
  have f: "\<not> ta_required bad_pattern" "ta_minLength bad_pattern = -1" by code_simp+
  have t: "updateValidation sample_platform (bad_pattern\<lparr>t_value := ''a''\<rparr>)
       = Threw SyntaxError (bad_pattern\<lparr>t_value := ''a''\<rparr>)"
    by (rule validation_throws [where p = "''(''"]) (simp_all add: p f sample_regexp_values)
  have r: "\<not> returns (setValue sample_platform ''a'' bad_pattern)
   \<and> t_reported (outcome_state (setValue sample_platform ''a'' bad_pattern)) = [SyntaxError]
   \<and> isValid (outcome_state (setValue sample_platform ''a'' bad_pattern))
   \<and> ta_rows (texteria_setAttribute sample_platform ''rows'' ''abc'' texteria_constructor) = NaN
   \<and> ta_cols (texteria_setAttribute sample_platform ''cols'' ''abc'' texteria_constructor) = NaN
   \<and> ta_rows (texteria_setAttribute sample_platform ''rows'' [] texteria_constructor) = Num 3
   \<and> ta_cols (texteria_setAttribute sample_platform ''cols'' [] texteria_constructor) = Num 50"
    by code_simp
  from p t r sample_regexp_values(2) show ?thesis by simp
qed

section \<open>Typing into the text widget with a malformed pattern\<close>

text \<open>
  C3. The claim is that every keystroke dispatches exactly one input event. With the
  pattern \<open>(\<close> the input listener throws in \<open>updateValidation\<close>, before it reaches
  \<open>dispatchEvent\<close>: the keystroke \<open>a\<close> reflects the value into the attribute, dispatches
  no event, and leaves \<open>isUserTyping\<close> set.
\<close>

theorem C3_keystroke_without_event:
  "t_attrs bad_pattern ''pattern'' = Some ''(''
   \<and> t_events bad_pattern = []
   \<and> \<not> returns (texteria_on_input sample_platform (bad_pattern\<lparr>ta_value := ''a''\<rparr>))
   \<and> t_events (texteria_type_string sample_platform ''a'' bad_pattern) = []
   \<and> t_attrs (texteria_type_string sample_platform ''a'' bad_pattern) ''value'' = Some ''a''
   \<and> t_reported (texteria_type_string sample_platform ''a'' bad_pattern) = [SyntaxError]
   \<and> isUserTyping (texteria_type_string sample_platform ''a'' bad_pattern)
   \<and> t_events (texteria_type_string sample_platform ''ab'' bad_pattern) = []"
  by code_simp

end
